theory Spec2Isabelle
  imports Complex_Main
begin

section \<open>JSON documents and the Python operations the script applies to them\<close>

text \<open>
  The script \<^verbatim>\<open>apply_standard_offsets.py\<close> works on documents returned by
  \<^verbatim>\<open>json.load\<close> and \<^verbatim>\<open>json.loads\<close>. A document is a value of the
  following type. A dictionary is kept as the list of its items in insertion order (the keys of
  a dictionary built by the JSON decoder are distinct strings); lookups go through
  \<^const>\<open>map_of\<close>. A float is carried as its Python \<^verbatim>\<open>repr\<close> text, which is all the
  script ever observes of it (its truth value and its \<^verbatim>\<open>str\<close>). A character is
  its code point, so the strings of the model are the Python strings of code points below
  256.
\<close>

datatype json =
    JNull
  | JBool bool
  | JInt int
  | JFloat string
  | JStr string
  | JArr "json list"
  | JObj "(string \<times> json) list"

text \<open>
  Every \<^verbatim>\<open>raise\<close> of the script is a \<^verbatim>\<open>RuntimeError\<close> with a message;
  the constructors below name them after the failure categories of the specification and keep
  the message. The remaining constructors are the built-in exceptions that the dynamic
  operations raise on documents of an unexpected shape.
\<close>

datatype error =
    TemplateNotFoundError string
  | SchemaMismatchError string
  | NoInstrumentsError string
  | AuthenticationError string
  | TransportError string
  | ReadinessTimeoutError string
  | ConfigurationError string
  | HttpFailure string
  | JsonDecodeError
  | KeyError string
  | AttributeError
  | TypeError
  | IndexError

subsection \<open>Text helpers\<close>

fun py_join :: "string \<Rightarrow> string list \<Rightarrow> string" where
  "py_join sep [] = []"
| "py_join sep [x] = x"
| "py_join sep (x # y # rest) = x @ sep @ py_join sep (y # rest)"

definition py_isspace :: "char \<Rightarrow> bool" where
  "py_isspace c \<longleftrightarrow>
     c \<in> set [CHR 0x09, CHR 0x0A, CHR 0x0B, CHR 0x0C, CHR 0x0D,
               CHR 0x1C, CHR 0x1D, CHR 0x1E, CHR 0x1F, CHR 0x20, CHR 0x85, CHR 0xA0]"

definition py_strip :: "string \<Rightarrow> string" where
  "py_strip s = rev (dropWhile py_isspace (rev (dropWhile py_isspace s)))"

text \<open>\<^verbatim>\<open>str.lower\<close> below code point 256: the letters \<^verbatim>\<open>A\<close> to \<^verbatim>\<open>Z\<close> and
  the capital letters from \<^verbatim>\<open>0xC0\<close> to \<^verbatim>\<open>0xDE\<close> (\<^verbatim>\<open>0xD7\<close>, the multiplication
  sign, is not a letter) move up by 32.\<close>

definition upper_letters :: string where
  "upper_letters =
     ''ABCDEFGHIJKLMNOPQRSTUVWXYZ''
     @ [CHR 0xC0, CHR 0xC1, CHR 0xC2, CHR 0xC3, CHR 0xC4, CHR 0xC5, CHR 0xC6, CHR 0xC7,
        CHR 0xC8, CHR 0xC9, CHR 0xCA, CHR 0xCB, CHR 0xCC, CHR 0xCD, CHR 0xCE, CHR 0xCF,
        CHR 0xD0, CHR 0xD1, CHR 0xD2, CHR 0xD3, CHR 0xD4, CHR 0xD5, CHR 0xD6,
        CHR 0xD8, CHR 0xD9, CHR 0xDA, CHR 0xDB, CHR 0xDC, CHR 0xDD, CHR 0xDE]"

definition lower_letters :: string where
  "lower_letters =
     ''abcdefghijklmnopqrstuvwxyz''
     @ [CHR 0xE0, CHR 0xE1, CHR 0xE2, CHR 0xE3, CHR 0xE4, CHR 0xE5, CHR 0xE6, CHR 0xE7,
        CHR 0xE8, CHR 0xE9, CHR 0xEA, CHR 0xEB, CHR 0xEC, CHR 0xED, CHR 0xEE, CHR 0xEF,
        CHR 0xF0, CHR 0xF1, CHR 0xF2, CHR 0xF3, CHR 0xF4, CHR 0xF5, CHR 0xF6,
        CHR 0xF8, CHR 0xF9, CHR 0xFA, CHR 0xFB, CHR 0xFC, CHR 0xFD, CHR 0xFE]"

definition py_lower_char :: "char \<Rightarrow> char" where
  "py_lower_char c =
     (case map_of (zip upper_letters lower_letters) c of
        Some l \<Rightarrow> l
      | None \<Rightarrow> c)"

definition py_lower :: "string \<Rightarrow> string" where
  "py_lower s = map py_lower_char s"

fun str_of_nat :: "nat \<Rightarrow> string" where
  "str_of_nat n =
     (if n < 10 then [''0123456789'' ! n]
      else str_of_nat (n div 10) @ [''0123456789'' ! (n mod 10)])"

definition str_of_int :: "int \<Rightarrow> string" where
  "str_of_int i = (if i < 0 then CHR ''-'' # str_of_nat (nat (- i)) else str_of_nat (nat i))"

definition hex2 :: "nat \<Rightarrow> string" where
  "hex2 n = [''0123456789abcdef'' ! ((n div 16) mod 16), ''0123456789abcdef'' ! (n mod 16)]"

text \<open>\<^verbatim>\<open>repr\<close> of a string: single quotes unless the text holds a single quote
  and no double quote; the quote in use, the backslash and the characters that are not
  printable are escaped. Below code point 256 the characters that are not printable are the
  control characters (below \<^verbatim>\<open>0x20\<close>, and \<^verbatim>\<open>0x7F\<close> to \<^verbatim>\<open>0x9F\<close>), the
  no-break space \<^verbatim>\<open>0xA0\<close> and the soft hyphen \<^verbatim>\<open>0xAD\<close>.\<close>

definition repr_char :: "char \<Rightarrow> char \<Rightarrow> string" where
  "repr_char q c =
     (if c = q \<or> c = CHR 0x5C then [CHR 0x5C, c]
      else if c = CHR 0x09 then [CHR 0x5C, CHR ''t'']
      else if c = CHR 0x0A then [CHR 0x5C, CHR ''n'']
      else if c = CHR 0x0D then [CHR 0x5C, CHR ''r'']
      else if (of_char c :: nat) < 32 \<or> (127 \<le> (of_char c :: nat) \<and> (of_char c :: nat) \<le> 160)
              \<or> (of_char c :: nat) = 173
        then [CHR 0x5C, CHR ''x''] @ hex2 (of_char c)
      else [c])"

definition repr_str :: "string \<Rightarrow> string" where
  "repr_str s =
     (let q = (if CHR 0x27 \<in> set s \<and> CHR 0x22 \<notin> set s then CHR 0x22 else CHR 0x27)
      in q # concat (map (repr_char q) s) @ [q])"

fun py_repr :: "json \<Rightarrow> string" where
  "py_repr JNull = ''None''"
| "py_repr (JBool b) = (if b then ''True'' else ''False'')"
| "py_repr (JInt i) = str_of_int i"
| "py_repr (JFloat r) = r"
| "py_repr (JStr s) = repr_str s"
| "py_repr (JArr xs) = ''['' @ py_join '', '' (map py_repr xs) @ '']''"
| "py_repr (JObj kvs) =
     ''{'' @ py_join '', '' (map (\<lambda>kv. repr_str (fst kv) @ '': '' @ py_repr (snd kv)) kvs) @ ''}''"

text \<open>\<^verbatim>\<open>str(x)\<close>: a string is itself, everything else is its \<^verbatim>\<open>repr\<close>.\<close>

definition py_str :: "json \<Rightarrow> string" where
  "py_str v = (case v of JStr s \<Rightarrow> s | _ \<Rightarrow> py_repr v)"

subsection \<open>Dynamic operations\<close>

text \<open>Truth value, as \<^verbatim>\<open>if x\<close>, \<^verbatim>\<open>not x\<close> and \<^verbatim>\<open>x or y\<close> test it.\<close>

fun py_truthy :: "json \<Rightarrow> bool" where
  "py_truthy JNull = False"
| "py_truthy (JBool b) = b"
| "py_truthy (JInt i) = (i \<noteq> 0)"
| "py_truthy (JFloat r) = (r \<noteq> ''0.0'' \<and> r \<noteq> ''-0.0'')"
| "py_truthy (JStr s) = (s \<noteq> [])"
| "py_truthy (JArr xs) = (xs \<noteq> [])"
| "py_truthy (JObj kvs) = (kvs \<noteq> [])"

text \<open>\<^verbatim>\<open>x.get(key, default)\<close>: only a dictionary has the method.\<close>

fun py_get :: "json \<Rightarrow> string \<Rightarrow> json \<Rightarrow> error + json" where
  "py_get (JObj kvs) k d = Inr (case map_of kvs k of Some v \<Rightarrow> v | None \<Rightarrow> d)"
| "py_get _ k d = Inl AttributeError"

text \<open>\<^verbatim>\<open>x[key]\<close> with a string key.\<close>

fun py_item :: "json \<Rightarrow> string \<Rightarrow> error + json" where
  "py_item (JObj kvs) k = (case map_of kvs k of Some v \<Rightarrow> Inr v | None \<Rightarrow> Inl (KeyError k))"
| "py_item _ k = Inl TypeError"

text \<open>\<^verbatim>\<open>x[0]\<close>. A decoded dictionary has string keys only, so the key \<^verbatim>\<open>0\<close>
  is missing from it.\<close>

fun py_first :: "json \<Rightarrow> error + json" where
  "py_first (JArr []) = Inl IndexError"
| "py_first (JArr (x # xs)) = Inr x"
| "py_first (JStr []) = Inl IndexError"
| "py_first (JStr (c # cs)) = Inr (JStr [c])"
| "py_first (JObj kvs) = Inl (KeyError ''0'')"
| "py_first _ = Inl TypeError"

text \<open>The elements a \<^verbatim>\<open>for\<close> loop runs through.\<close>

fun py_iter :: "json \<Rightarrow> error + json list" where
  "py_iter (JArr xs) = Inr xs"
| "py_iter (JObj kvs) = Inr (map (\<lambda>kv. JStr (fst kv)) kvs)"
| "py_iter (JStr s) = Inr (map (\<lambda>c. JStr [c]) s)"
| "py_iter _ = Inl TypeError"

text \<open>\<^verbatim>\<open>key in x\<close> for a string key: a key of a dictionary, an element of a list,
  a substring of a string.\<close>

fun is_substring :: "string \<Rightarrow> string \<Rightarrow> bool" where
  "is_substring k [] = (k = [])"
| "is_substring k (c # cs) = (take (length k) (c # cs) = k \<or> is_substring k cs)"

fun py_contains :: "json \<Rightarrow> string \<Rightarrow> error + bool" where
  "py_contains (JObj kvs) k = Inr (k \<in> set (map fst kvs))"
| "py_contains (JArr xs) k = Inr (JStr k \<in> set xs)"
| "py_contains (JStr s) k = Inr (is_substring k s)"
| "py_contains _ k = Inl TypeError"

text \<open>An optional string (\<^verbatim>\<open>str | None\<close>) is true when it is a non-empty string.\<close>

fun opt_truthy :: "string option \<Rightarrow> bool" where
  "opt_truthy None = False"
| "opt_truthy (Some s) = (s \<noteq> [])"

section \<open>Selecting templates\<close>

text \<open>
  \<^verbatim>\<open>
  def _find_template_by_mount(pipette_offsets, mount):
      for entry in pipette_offsets.get("data", []):
          if str(entry.get("mount", "")).lower() == mount:
              return entry
      raise RuntimeError(f"No pipette offset template found for mount={mount!r}.")
  \<close>
\<close>

fun find_template_by_mount_loop :: "json list \<Rightarrow> string \<Rightarrow> error + json" where
  "find_template_by_mount_loop [] mount =
     Inl (TemplateNotFoundError
            (''No pipette offset template found for mount='' @ repr_str mount @ ''.''))"
| "find_template_by_mount_loop (entry # rest) mount =
     (case py_get entry ''mount'' (JStr []) of
        Inl e \<Rightarrow> Inl e
      | Inr m \<Rightarrow>
          if py_lower (py_str m) = mount then Inr entry
          else find_template_by_mount_loop rest mount)"

definition find_template_by_mount :: "json \<Rightarrow> string \<Rightarrow> error + json" where
  "find_template_by_mount pipette_offsets mount =
     (case py_get pipette_offsets ''data'' (JArr []) of
        Inl e \<Rightarrow> Inl e
      | Inr data \<Rightarrow>
          (case py_iter data of
             Inl e \<Rightarrow> Inl e
           | Inr entries \<Rightarrow> find_template_by_mount_loop entries mount))"

text \<open>
  \<^verbatim>\<open>
  def _find_tip_template_for_pipette(tip_lengths, preferred_serial):
      if preferred_serial:
          for entry in tip_lengths.get("data", []):
              if str(entry.get("pipette", "")).strip() == preferred_serial:
                  return entry
      data = tip_lengths.get("data", [])
      if not data:
          raise RuntimeError("No tip length templates found.")
      return data[0]
  \<close>
  The loop returns \<open>Some entry\<close> when it returns from the function and \<open>None\<close> when it
  runs to its end.
\<close>

fun find_tip_template_loop :: "json list \<Rightarrow> string \<Rightarrow> error + json option" where
  "find_tip_template_loop [] preferred = Inr None"
| "find_tip_template_loop (entry # rest) preferred =
     (case py_get entry ''pipette'' (JStr []) of
        Inl e \<Rightarrow> Inl e
      | Inr p \<Rightarrow>
          if py_strip (py_str p) = preferred then Inr (Some entry)
          else find_tip_template_loop rest preferred)"

definition find_tip_template_fallback :: "json \<Rightarrow> error + json" where
  "find_tip_template_fallback tip_lengths =
     (case py_get tip_lengths ''data'' (JArr []) of
        Inl e \<Rightarrow> Inl e
      | Inr data \<Rightarrow>
          if \<not> py_truthy data then Inl (TemplateNotFoundError ''No tip length templates found.'')
          else py_first data)"

definition find_tip_template_for_pipette :: "json \<Rightarrow> string option \<Rightarrow> error + json" where
  "find_tip_template_for_pipette tip_lengths preferred_serial =
     (case preferred_serial of
        None \<Rightarrow> find_tip_template_fallback tip_lengths
      | Some preferred \<Rightarrow>
          if preferred = [] then find_tip_template_fallback tip_lengths
          else
            (case py_get tip_lengths ''data'' (JArr []) of
               Inl e \<Rightarrow> Inl e
             | Inr data \<Rightarrow>
                 (case py_iter data of
                    Inl e \<Rightarrow> Inl e
                  | Inr entries \<Rightarrow>
                      (case find_tip_template_loop entries preferred of
                         Inl e \<Rightarrow> Inl e
                       | Inr (Some entry) \<Rightarrow> Inr entry
                       | Inr None \<Rightarrow> find_tip_template_fallback tip_lengths))))"

section \<open>Reading the attached instruments\<close>

text \<open>
  What \<^verbatim>\<open>_http_json\<close> does with a request: it returns the decoded body, or
  \<^verbatim>\<open>urlopen\<close> raises \<^verbatim>\<open>HTTPError\<close> (status code and body), or something else
  is raised (exception type name and message: a refused connection, a timeout, a body that is
  not JSON).
\<close>

datatype http_outcome =
    Responded json
  | HTTPError int string
  | OtherFailure string string

definition http_json :: "http_outcome \<Rightarrow> error + json" where
  "http_json r =
     (case r of
        Responded payload \<Rightarrow> Inr payload
      | HTTPError code body \<Rightarrow> Inl (HttpFailure (''HTTP Error '' @ str_of_int code))
      | OtherFailure name msg \<Rightarrow> Inl (HttpFailure (name @ '': '' @ msg)))"

text \<open>
  \<^verbatim>\<open>
  def _attached_pipette_serials(host, api_port, api_version):
      url = f"http://{host}:{api_port}/instruments"
      payload = _http_json(url, api_version)
      out = {}
      for item in payload.get("data", []):
          if item.get("instrumentType") != "pipette":
              continue
          mount = str(item.get("mount", "")).lower()
          serial = str(item.get("serialNumber", "")).strip()
          if mount in ("left", "right") and serial:
              out[mount] = serial
      return out
  \<close>
  The model takes the outcome of the request; the request itself is an event of
  \<open>main\<close>.
\<close>

fun attached_pipette_serials_loop ::
  "json list \<Rightarrow> (string \<rightharpoonup> string) \<Rightarrow> error + (string \<rightharpoonup> string)" where
  "attached_pipette_serials_loop [] out = Inr out"
| "attached_pipette_serials_loop (item # rest) out =
     (case py_get item ''instrumentType'' JNull of
        Inl e \<Rightarrow> Inl e
      | Inr ty \<Rightarrow>
          if ty \<noteq> JStr ''pipette'' then attached_pipette_serials_loop rest out
          else
            (case py_get item ''mount'' (JStr []) of
               Inl e \<Rightarrow> Inl e
             | Inr m \<Rightarrow>
                 (case py_get item ''serialNumber'' (JStr []) of
                    Inl e \<Rightarrow> Inl e
                  | Inr sn \<Rightarrow>
                      (let mount = py_lower (py_str m); serial = py_strip (py_str sn)
                       in if (mount = ''left'' \<or> mount = ''right'') \<and> serial \<noteq> []
                          then attached_pipette_serials_loop rest (out(mount \<mapsto> serial))
                          else attached_pipette_serials_loop rest out))))"

definition attached_pipette_serials :: "http_outcome \<Rightarrow> error + (string \<rightharpoonup> string)" where
  "attached_pipette_serials response =
     (case http_json response of
        Inl e \<Rightarrow> Inl e
      | Inr payload \<Rightarrow>
          (case py_get payload ''data'' (JArr []) of
             Inl e \<Rightarrow> Inl e
           | Inr data \<Rightarrow>
               (case py_iter data of
                  Inl e \<Rightarrow> Inl e
                | Inr items \<Rightarrow> attached_pipette_serials_loop items Map.empty)))"

section \<open>Building the calibration records\<close>

text \<open>The status block a record gets when its template has none.\<close>

definition default_status :: json where
  "default_status = JObj [(''markedBad'', JBool False), (''source'', JNull), (''markedAt'', JNull)]"

text \<open>
  \<^verbatim>\<open>
  def _build_pipette_file(template):
      return {
          "offset": template["offset"],
          "tiprack": template["tiprack"],
          "uri": template.get("tiprackUri", template.get("uri", "")),
          "last_modified": _utc_now(),
          "source": template.get("source", "user"),
          "status": template.get("status", {"markedBad": False, "source": None, "markedAt": None}),
      }
  \<close>
  The builders take the text that \<^verbatim>\<open>_utc_now()\<close> returns as the argument \<open>now\<close>.
\<close>

definition build_pipette_file :: "string \<Rightarrow> json \<Rightarrow> error + json" where
  "build_pipette_file now template =
     (case py_item template ''offset'' of
        Inl e \<Rightarrow> Inl e
      | Inr offset \<Rightarrow>
     (case py_item template ''tiprack'' of
        Inl e \<Rightarrow> Inl e
      | Inr tiprack \<Rightarrow>
     (case py_get template ''uri'' (JStr []) of
        Inl e \<Rightarrow> Inl e
      | Inr uri_default \<Rightarrow>
     (case py_get template ''tiprackUri'' uri_default of
        Inl e \<Rightarrow> Inl e
      | Inr uri \<Rightarrow>
     (case py_get template ''source'' (JStr ''user'') of
        Inl e \<Rightarrow> Inl e
      | Inr source \<Rightarrow>
     (case py_get template ''status'' default_status of
        Inl e \<Rightarrow> Inl e
      | Inr status \<Rightarrow>
          Inr (JObj [(''offset'', offset), (''tiprack'', tiprack), (''uri'', uri),
                     (''last_modified'', JStr now), (''source'', source),
                     (''status'', status)])))))))"

text \<open>
  \<^verbatim>\<open>
  def _build_tip_length_file(template):
      uri = template["uri"]
      return {
          uri: {
              "tipLength": template["tipLength"],
              "lastModified": _utc_now(),
              "source": template.get("source", "user"),
              "status": template.get("status", {"markedBad": False, "source": None, "markedAt": None}),
              "definitionHash": template["tiprack"],
          }
      }
  \<close>
  The key of the outer dictionary is the \<^verbatim>\<open>uri\<close> value itself. A list or a
  dictionary cannot be a key (\<^verbatim>\<open>TypeError\<close>, raised once the inner dictionary is
  built); a scalar that is not a string is kept here as the text \<^verbatim>\<open>json.dump\<close> writes
  for such a key.
\<close>

fun dict_key :: "json \<Rightarrow> error + string" where
  "dict_key (JStr s) = Inr s"
| "dict_key JNull = Inr ''null''"
| "dict_key (JBool b) = Inr (if b then ''true'' else ''false'')"
| "dict_key (JInt i) = Inr (str_of_int i)"
| "dict_key (JFloat r) = Inr r"
| "dict_key _ = Inl TypeError"

definition build_tip_length_file :: "string \<Rightarrow> json \<Rightarrow> error + json" where
  "build_tip_length_file now template =
     (case py_item template ''uri'' of
        Inl e \<Rightarrow> Inl e
      | Inr uri \<Rightarrow>
     (case py_item template ''tipLength'' of
        Inl e \<Rightarrow> Inl e
      | Inr tip_length \<Rightarrow>
     (case py_get template ''source'' (JStr ''user'') of
        Inl e \<Rightarrow> Inl e
      | Inr source \<Rightarrow>
     (case py_get template ''status'' default_status of
        Inl e \<Rightarrow> Inl e
      | Inr status \<Rightarrow>
     (case py_item template ''tiprack'' of
        Inl e \<Rightarrow> Inl e
      | Inr tiprack \<Rightarrow>
     (case dict_key uri of
        Inl e \<Rightarrow> Inl e
      | Inr key \<Rightarrow>
          Inr (JObj [(key, JObj [(''tipLength'', tip_length), (''lastModified'', JStr now),
                                 (''source'', source), (''status'', status),
                                 (''definitionHash'', tiprack)])])))))))"

text \<open>
  \<^verbatim>\<open>
  def _build_deck_file(deck_source, default_pipette):
      if "deckCalibration" in deck_source:
          deck = deck_source["deckCalibration"]["data"]
      else:
          deck = deck_source

      attitude = deck.get("attitude") or deck.get("matrix")
      if not attitude:
          raise RuntimeError("Deck template missing calibration attitude/matrix.")

      return {
          "attitude": attitude,
          "last_modified": _utc_now(),
          "source": deck.get("source", "user"),
          "pipette_calibrated_with": deck.get(
              "pipette_calibrated_with", deck.get("pipetteCalibratedWith", default_pipette)
          ),
          "tiprack": deck.get("tiprack"),
          "status": deck.get("status", {"markedBad": False, "source": None, "markedAt": None}),
      }
  \<close>
  \<open>deck_unwrap\<close> is the first statement (the nested or the flat shape),
  \<open>deck_attitude\<close> the second and third (\<^verbatim>\<open>x or y\<close> is \<^verbatim>\<open>x\<close> when
  \<^verbatim>\<open>x\<close> is true and \<^verbatim>\<open>y\<close> otherwise).
\<close>

definition deck_unwrap :: "json \<Rightarrow> error + json" where
  "deck_unwrap deck_source =
     (case py_contains deck_source ''deckCalibration'' of
        Inl e \<Rightarrow> Inl e
      | Inr True \<Rightarrow>
          (case py_item deck_source ''deckCalibration'' of
             Inl e \<Rightarrow> Inl e
           | Inr dc \<Rightarrow> py_item dc ''data'')
      | Inr False \<Rightarrow> Inr deck_source)"

definition deck_attitude :: "json \<Rightarrow> error + json" where
  "deck_attitude deck =
     (case py_get deck ''attitude'' JNull of
        Inl e \<Rightarrow> Inl e
      | Inr a \<Rightarrow>
          (case (if py_truthy a then Inr a else py_get deck ''matrix'' JNull) of
             Inl e \<Rightarrow> Inl e
           | Inr attitude \<Rightarrow>
               if \<not> py_truthy attitude
               then Inl (SchemaMismatchError ''Deck template missing calibration attitude/matrix.'')
               else Inr attitude))"

definition build_deck_file :: "string \<Rightarrow> json \<Rightarrow> string \<Rightarrow> error + json" where
  "build_deck_file now deck_source default_pipette =
     (case deck_unwrap deck_source of
        Inl e \<Rightarrow> Inl e
      | Inr deck \<Rightarrow>
     (case deck_attitude deck of
        Inl e \<Rightarrow> Inl e
      | Inr attitude \<Rightarrow>
     (case py_get deck ''source'' (JStr ''user'') of
        Inl e \<Rightarrow> Inl e
      | Inr source \<Rightarrow>
     (case py_get deck ''pipetteCalibratedWith'' (JStr default_pipette) of
        Inl e \<Rightarrow> Inl e
      | Inr camel \<Rightarrow>
     (case py_get deck ''pipette_calibrated_with'' camel of
        Inl e \<Rightarrow> Inl e
      | Inr calibrated_with \<Rightarrow>
     (case py_get deck ''tiprack'' JNull of
        Inl e \<Rightarrow> Inl e
      | Inr tiprack \<Rightarrow>
     (case py_get deck ''status'' default_status of
        Inl e \<Rightarrow> Inl e
      | Inr status \<Rightarrow>
          Inr (JObj [(''attitude'', attitude), (''last_modified'', JStr now),
                     (''source'', source), (''pipette_calibrated_with'', calibrated_with),
                     (''tiprack'', tiprack), (''status'', status)]))))))))"

section \<open>Effects\<close>

text \<open>
  What the script does to the outside world is recorded as a list of events, in the order in
  which they happen: a request sent by \<^verbatim>\<open>urlopen\<close>, a process started by
  \<^verbatim>\<open>subprocess.run\<close> (with its argument vector, and the local file whose bytes are fed
  to its input when there is one), a file written by \<^verbatim>\<open>_write_json\<close>, a line printed,
  a pause. A computation ends by returning a value or by raising; \<open>Unfinished\<close> is the
  polling loop that is still running when the observations supplied to the model end.
\<close>

datatype event =
    HttpGet string
  | Exec "string list"
  | ExecInput "string list" string
  | WriteJson string json
  | Print string
  | Sleep rat

datatype 'a outcome = Returned 'a | Raised error | Unfinished

type_synonym 'a io = "'a outcome \<times> event list"

definition io_return :: "'a \<Rightarrow> 'a io" where
  "io_return x = (Returned x, [])"

definition io_raise :: "error \<Rightarrow> 'a io" where
  "io_raise e = (Raised e, [])"

definition io_emit :: "event \<Rightarrow> unit io" where
  "io_emit ev = (Returned (), [ev])"

definition io_of :: "error + 'a \<Rightarrow> 'a io" where
  "io_of r = (case r of Inl e \<Rightarrow> (Raised e, []) | Inr x \<Rightarrow> (Returned x, []))"

definition io_bind :: "'a io \<Rightarrow> ('a \<Rightarrow> 'b io) \<Rightarrow> 'b io" where
  "io_bind m f =
     (case fst m of
        Returned x \<Rightarrow> (fst (f x), snd m @ snd (f x))
      | Raised e \<Rightarrow> (Raised e, snd m)
      | Unfinished \<Rightarrow> (Unfinished, snd m))"

definition io_then :: "unit io \<Rightarrow> 'b io \<Rightarrow> 'b io" where
  "io_then m n = io_bind m (\<lambda>u. n)"

definition io_when :: "bool \<Rightarrow> unit io \<Rightarrow> unit io" where
  "io_when b m = (if b then m else io_return ())"

fun io_for :: "'a list \<Rightarrow> ('a \<Rightarrow> unit io) \<Rightarrow> unit io" where
  "io_for [] f = io_return ()"
| "io_for (x # xs) f = io_then (f x) (io_for xs f)"

section \<open>Arguments and the outside world\<close>

text \<open>The parsed command line (\<^verbatim>\<open>argparse.Namespace\<close>), with the two attributes that
  \<^verbatim>\<open>main\<close> adds (\<^verbatim>\<open>_robot_name\<close>, \<^verbatim>\<open>_ssh_key_dir\<close>). The template and
  offsets paths are held by the world below, already resolved.\<close>

record args =
  host :: string
  api_port :: int
  api_version :: string
  ssh_user :: string
  ssh_port :: int
  ssh_key :: string
  ssh_key_dir :: string
  ssh_key_scope :: string
  ensure_ssh_key :: bool
  no_ensure_ssh_key :: bool
  dry_run :: bool
  remote_tag :: string
  restart_robot_server :: bool
  no_restart_robot_server :: bool
  restart_wait_seconds :: rat
  robot_name_attr :: string
  ssh_key_dir_attr :: string

text \<open>The value of \<^verbatim>\<open>--remote-tag\<close> when the option is not given.\<close>

definition default_remote_tag :: string where
  "default_remote_tag = ''standard-offsets-upload''"

text \<open>A finished process (\<^verbatim>\<open>subprocess.CompletedProcess\<close>).\<close>

record proc =
  returncode :: int
  stdout :: string
  stderr :: string

text \<open>
  Everything the script reads from outside: the local file system, the results of the
  processes it starts, the answers to its requests, the clock. \<open>ready_start\<close> is the clock
  when the readiness wait begins; \<open>ready_rounds\<close> gives, for each round of its loop, the
  clock read at the deadline check and the outcome of the probe that follows when the round
  gets that far. \<open>expanduser\<close> is \<^verbatim>\<open>Path.expanduser\<close>, which depends on the home
  directories of the machine. The paths held by the world are texts of POSIX paths as
  \<^verbatim>\<open>str(path)\<close> gives them.
\<close>

record world =
  python_executable :: string
  script_dir :: string
  default_key_dir :: string
  expanduser :: "string \<Rightarrow> string"
  temp_dir :: string
  offsets_dir :: string
  pipette_template_path :: string
  tip_template_path :: string
  deck_template_path :: string
  is_dir :: "string \<Rightarrow> bool"
  is_file :: "string \<Rightarrow> bool"
  load_json :: "string \<Rightarrow> error + json"
  exec_result :: "string list \<Rightarrow> proc"
  upload_result :: "string list \<Rightarrow> string \<Rightarrow> proc"
  health_outcome :: http_outcome
  instruments_outcome :: http_outcome
  utc_now :: "nat \<Rightarrow> string"
  ready_start :: rat
  ready_rounds :: "(rat \<times> http_outcome) list"

section \<open>Paths\<close>

text \<open>
  \<^verbatim>\<open>pathlib\<close> on POSIX. A path is kept as its text. \<open>py_path s\<close> is
  \<^verbatim>\<open>str(Path(s))\<close>: the root is \<^verbatim>\<open>//\<close> for exactly two leading slashes and
  \<^verbatim>\<open>/\<close> for any other number of them, empty components and \<^verbatim>\<open>.\<close> components are
  dropped, and the empty path is \<^verbatim>\<open>.\<close>. \<open>path_join base name\<close> is
  \<^verbatim>\<open>str(base / name)\<close>: a \<open>name\<close> with a root replaces \<open>base\<close>.
\<close>

fun split_slash :: "string \<Rightarrow> string list" where
  "split_slash [] = [[]]"
| "split_slash (c # cs) =
     (if c = CHR ''/'' then [] # split_slash cs
      else (case split_slash cs of [] \<Rightarrow> [[c]] | part # parts \<Rightarrow> (c # part) # parts))"

definition path_parts :: "string \<Rightarrow> string list" where
  "path_parts s = filter (\<lambda>part. part \<noteq> [] \<and> part \<noteq> ''.'') (split_slash s)"

definition path_root :: "string \<Rightarrow> string" where
  "path_root s =
     (if take 2 s = ''//'' \<and> take 3 s \<noteq> ''///'' then ''//''
      else if take 1 s = ''/'' then ''/''
      else [])"

definition path_text :: "string \<Rightarrow> string list \<Rightarrow> string" where
  "path_text anchor parts =
     (if anchor = [] \<and> parts = [] then ''.'' else anchor @ py_join ''/'' parts)"

definition py_path :: "string \<Rightarrow> string" where
  "py_path s = path_text (path_root s) (path_parts s)"

definition path_join :: "string \<Rightarrow> string \<Rightarrow> string" where
  "path_join base name =
     (if path_root name \<noteq> [] then py_path name
      else path_text (path_root base) (path_parts base @ path_parts name))"

section \<open>The remote shell\<close>

definition nl :: string where
  "nl = [CHR 0x0A]"

definition sq :: string where
  "sq = [CHR 0x27]"

definition dq :: string where
  "dq = [CHR 0x22]"

text \<open>\<^verbatim>\<open>stderr or stdout or f"exit code {returncode}"\<close>, on stripped texts.\<close>

definition failure_detail :: "proc \<Rightarrow> string" where
  "failure_detail p =
     (if py_strip (stderr p) \<noteq> [] then py_strip (stderr p)
      else if py_strip (stdout p) \<noteq> [] then py_strip (stdout p)
      else ''exit code '' @ str_of_int (returncode p))"

text \<open>
  \<^verbatim>\<open>
  def _run(cmd, check=True):
      proc = subprocess.run(cmd, check=False, text=True, capture_output=True)
      if check and proc.returncode != 0:
          ...
          raise RuntimeError(f"Command failed: {cmd_str}\n{detail}")
      return proc
  \<close>
  Every call of the script passes \<^verbatim>\<open>check=True\<close>.
\<close>

definition run :: "world \<Rightarrow> string list \<Rightarrow> proc io" where
  "run w cmd =
     io_then (io_emit (Exec cmd))
       (if returncode (exec_result w cmd) \<noteq> 0
        then io_raise (TransportError
               (''Command failed: '' @ py_join '' '' cmd @ nl @ failure_detail (exec_result w cmd)))
        else io_return (exec_result w cmd))"

text \<open>
  \<^verbatim>\<open>
  def _ssh_base(args):
      base = ["ssh", "-p", str(args.ssh_port), "-o", "StrictHostKeyChecking=accept-new"]
      if args.ssh_key:
          base += ["-i", args.ssh_key]
      base += [target]
      return base
  \<close>
  where \<^verbatim>\<open>target\<close> is the user, an at sign and the host.
\<close>

definition ssh_base :: "args \<Rightarrow> string list" where
  "ssh_base a =
     [''ssh'', ''-p'', str_of_int (ssh_port a), ''-o'', ''StrictHostKeyChecking=accept-new'']
     @ (if ssh_key a \<noteq> [] then [''-i'', ssh_key a] else [])
     @ [ssh_user a @ ''@'' @ host a]"

text \<open>\<^verbatim>\<open>urllib.parse.quote(dst)\<close>: letters, digits and \<^verbatim>\<open>_.-~/\<close> stay, every
  other character becomes \<^verbatim>\<open>%XX\<close> for each byte of its UTF-8 encoding: one byte
  below code point 128, two bytes from there to 255.\<close>

definition HEX2 :: "nat \<Rightarrow> string" where
  "HEX2 n = [''0123456789ABCDEF'' ! ((n div 16) mod 16), ''0123456789ABCDEF'' ! (n mod 16)]"

definition quote_char :: "char \<Rightarrow> string" where
  "quote_char c =
     (if c \<in> set ''ABCDEFGHIJKLMNOPQRSTUVWXYZabcdefghijklmnopqrstuvwxyz0123456789_.-~/''
      then [c]
      else if (of_char c :: nat) < 128 then CHR ''%'' # HEX2 (of_char c)
      else CHR ''%'' # HEX2 (192 + (of_char c :: nat) div 64)
           @ CHR ''%'' # HEX2 (128 + (of_char c :: nat) mod 64))"

definition py_quote :: "string \<Rightarrow> string" where
  "py_quote s = concat (map quote_char s)"

text \<open>
  \<^verbatim>\<open>
  def _ssh_copy_file(args, src, dst):
      ssh_cmd = _ssh_base(args) + [f"cat > {parse.quote(dst)}"]
      with src.open("rb") as f:
          data = f.read()
      proc = subprocess.run(ssh_cmd, input=data, capture_output=True)
      if proc.returncode != 0:
          ...
          raise RuntimeError(f"Upload failed: {cmd_str}\n{detail}")
  \<close>
\<close>

definition ssh_copy_file :: "world \<Rightarrow> args \<Rightarrow> string \<Rightarrow> string \<Rightarrow> unit io" where
  "ssh_copy_file w a src dst =
     (let ssh_cmd = ssh_base a @ [''cat > '' @ py_quote dst]
      in io_then (io_emit (ExecInput ssh_cmd src))
           (if returncode (upload_result w ssh_cmd src) \<noteq> 0
            then io_raise (TransportError
                   (''Upload failed: '' @ py_join '' '' ssh_cmd @ nl
                      @ failure_detail (upload_result w ssh_cmd src)))
            else io_return ()))"

section \<open>Waiting for the server\<close>

text \<open>
  \<^verbatim>\<open>
  def _wait_for_robot_server_ready(host, api_port, api_version, timeout_seconds):
      url = f"http://{host}:{api_port}/health"
      start = time.time()
      last_err = None
      while True:
          if time.time() - start > timeout_seconds:
              detail = last_err or "timeout waiting for /health"
              raise RuntimeError(f"Timed out waiting for robot-server to become ready at {url}.\n{detail}")
          try:
              _http_json(url, api_version, timeout=2.0)
              return
          except url_error.HTTPError as exc:
              last_err = f"HTTP {exc.code}: {exc.read().decode('utf-8', errors='replace')[:200]}"
          except Exception as exc:
              last_err = f"{type(exc).__name__}: {exc}"
          time.sleep(2.0)
  \<close>
  The model takes the clock read by \<^verbatim>\<open>start = time.time()\<close> and one observation for
  each round of the loop: the clock read by the deadline check and the outcome of the probe
  (which is not looked at when the round raises).
\<close>

definition health_url :: "string \<Rightarrow> int \<Rightarrow> string" where
  "health_url h port = ''http://'' @ h @ '':'' @ str_of_int port @ ''/health''"

fun wait_loop ::
  "string \<Rightarrow> rat \<Rightarrow> rat \<Rightarrow> string option \<Rightarrow> (rat \<times> http_outcome) list \<Rightarrow> unit io" where
  "wait_loop url timeout_seconds start last_err [] = (Unfinished, [])"
| "wait_loop url timeout_seconds start last_err ((now, probe) # rounds) =
     (if now - start > timeout_seconds then
        io_raise (ReadinessTimeoutError
          (''Timed out waiting for robot-server to become ready at '' @ url @ ''.'' @ nl
             @ (case last_err of
                  None \<Rightarrow> ''timeout waiting for /health''
                | Some detail \<Rightarrow>
                    if detail \<noteq> [] then detail else ''timeout waiting for /health'')))
      else
        io_then (io_emit (HttpGet url))
          (case probe of
             Responded payload \<Rightarrow> io_return ()
           | HTTPError code body \<Rightarrow>
               io_then (io_emit (Sleep 2))
                 (wait_loop url timeout_seconds start
                    (Some (''HTTP '' @ str_of_int code @ '': '' @ take 200 body)) rounds)
           | OtherFailure name msg \<Rightarrow>
               io_then (io_emit (Sleep 2))
                 (wait_loop url timeout_seconds start (Some (name @ '': '' @ msg)) rounds)))"

definition wait_for_robot_server_ready ::
  "string \<Rightarrow> int \<Rightarrow> string \<Rightarrow> rat \<Rightarrow> rat \<Rightarrow> (rat \<times> http_outcome) list \<Rightarrow> unit io" where
  "wait_for_robot_server_ready h port version timeout_seconds start rounds =
     wait_loop (health_url h port) timeout_seconds start None rounds"

section \<open>Applying the files on the robot\<close>

text \<open>
  \<^verbatim>\<open>
  remote_tmp = f"/data/{args.remote_tag}"
  remote_deck_final = "/data/robot/deck_calibration.json"
  to_copy = [(local_deck, f"{remote_tmp}/deck_calibration.json")]
  if local_left and left_serial:
      to_copy.append((local_left, f"{remote_tmp}/{left_serial}.left.pipette.json"))
  if local_right and right_serial:
      to_copy.append((local_right, f"{remote_tmp}/{right_serial}.right.pipette.json"))
  if local_tip_left and left_serial:
      to_copy.append((local_tip_left, f"{remote_tmp}/{left_serial}.tip_lengths.json"))
  if local_tip_right and right_serial:
      to_copy.append((local_tip_right, f"{remote_tmp}/{right_serial}.tip_lengths.json"))
  \<close>
  A local file is a \<^verbatim>\<open>Path\<close> or \<^verbatim>\<open>None\<close>, and a \<^verbatim>\<open>Path\<close> is always true; a serial
  is a string or \<^verbatim>\<open>None\<close>. \<open>staged\<close> is one of the four conditional appends: it yields
  the pair when the file is there and the serial is true.
\<close>

definition remote_tmp :: "args \<Rightarrow> string" where
  "remote_tmp a = ''/data/'' @ remote_tag a"

definition remote_deck_final :: string where
  "remote_deck_final = ''/data/robot/deck_calibration.json''"

definition staged :: "string option \<Rightarrow> string option \<Rightarrow> (string \<Rightarrow> string) \<Rightarrow> (string \<times> string) list" where
  "staged local serial dst =
     (case local of
        None \<Rightarrow> []
      | Some path \<Rightarrow>
          (case serial of
             None \<Rightarrow> []
           | Some sn \<Rightarrow> if sn \<noteq> [] then [(path, dst sn)] else []))"

definition to_copy ::
  "args \<Rightarrow> string option \<Rightarrow> string option \<Rightarrow> string option \<Rightarrow> string option \<Rightarrow> string \<Rightarrow>
   string option \<Rightarrow> string option \<Rightarrow> (string \<times> string) list" where
  "to_copy a local_left local_right local_tip_left local_tip_right local_deck
           left_serial right_serial =
     [(local_deck, remote_tmp a @ ''/deck_calibration.json'')]
     @ staged local_left left_serial (\<lambda>sn. remote_tmp a @ ''/'' @ sn @ ''.left.pipette.json'')
     @ staged local_right right_serial (\<lambda>sn. remote_tmp a @ ''/'' @ sn @ ''.right.pipette.json'')
     @ staged local_tip_left left_serial (\<lambda>sn. remote_tmp a @ ''/'' @ sn @ ''.tip_lengths.json'')
     @ staged local_tip_right right_serial (\<lambda>sn. remote_tmp a @ ''/'' @ sn @ ''.tip_lengths.json'')"

text \<open>
  The lines of the remote script, in the order of the source:
  \<^verbatim>\<open>
  script_lines = [
      "set -euo pipefail",
      f"mkdir -p /data/robot/pipettes/left /data/robot/pipettes/right /data/tip_lengths /data/robot",
      "CAL_DIR=\"$(python -c 'from opentrons.config import get_opentrons_path; print(get_opentrons_path(\"robot_calibration_dir\"))' 2>/dev/null || true)\"",
      "if [ -n \"$CAL_DIR\" ]; then mkdir -p \"$CAL_DIR\"; cp "
      + f"{remote_tmp}/deck_calibration.json \"$CAL_DIR/deck_calibration.json\"; "
      + "fi",
      f"cp {remote_tmp}/deck_calibration.json {remote_deck_final}",
      # Validate deck calibration using the robot's own model before restarting services.
      "python -c 'from opentrons.calibration_storage.ot2.models import v1; "
      "from opentrons.config import get_opentrons_path; "
      "from pathlib import Path; "
      "p = Path(get_opentrons_path(\"robot_calibration_dir\")) / \"deck_calibration.json\"; "
      "v1.DeckCalibrationModel.model_validate_json(p.read_text(encoding=\"utf-8\")); "
      "print(\"deck_calibration_valid\", str(p))'",
  ]
  if left_serial and local_left:
      script_lines.append(
          f"cp {remote_tmp}/{left_serial}.left.pipette.json /data/robot/pipettes/left/{left_serial}.json")
  if right_serial and local_right:
      script_lines.append(
          f"cp {remote_tmp}/{right_serial}.right.pipette.json /data/robot/pipettes/right/{right_serial}.json")
  if left_serial and local_tip_left:
      script_lines.append(
          f"cp {remote_tmp}/{left_serial}.tip_lengths.json /data/tip_lengths/{left_serial}.json")
  if right_serial and local_tip_right:
      script_lines.append(
          f"cp {remote_tmp}/{right_serial}.tip_lengths.json /data/tip_lengths/{right_serial}.json")
  remote_script = " && ".join(script_lines)
  \<close>
  \<open>sq\<close> and \<open>dq\<close> are the single and the double quote.
\<close>

definition cal_dir_line :: string where
  "cal_dir_line =
     ''CAL_DIR='' @ dq @ ''$(python -c '' @ sq
     @ ''from opentrons.config import get_opentrons_path; print(get_opentrons_path(''
     @ dq @ ''robot_calibration_dir'' @ dq @ ''))'' @ sq @ '' 2>/dev/null || true)'' @ dq"

definition mirror_line :: "string \<Rightarrow> string" where
  "mirror_line tmp =
     ''if [ -n '' @ dq @ ''$CAL_DIR'' @ dq @ '' ]; then mkdir -p '' @ dq @ ''$CAL_DIR'' @ dq
     @ ''; cp '' @ tmp @ ''/deck_calibration.json '' @ dq @ ''$CAL_DIR/deck_calibration.json'' @ dq
     @ ''; '' @ ''fi''"

definition validator_line :: string where
  "validator_line =
     ''python -c '' @ sq @ ''from opentrons.calibration_storage.ot2.models import v1; ''
     @ ''from opentrons.config import get_opentrons_path; ''
     @ ''from pathlib import Path; ''
     @ ''p = Path(get_opentrons_path('' @ dq @ ''robot_calibration_dir'' @ dq @ '')) / ''
     @ dq @ ''deck_calibration.json'' @ dq @ ''; ''
     @ ''v1.DeckCalibrationModel.model_validate_json(p.read_text(encoding='' @ dq @ ''utf-8''
     @ dq @ '')); ''
     @ ''print('' @ dq @ ''deck_calibration_valid'' @ dq @ '', str(p))'' @ sq"

definition appended :: "string option \<Rightarrow> string option \<Rightarrow> (string \<Rightarrow> string) \<Rightarrow> string list" where
  "appended serial local line =
     (case serial of
        None \<Rightarrow> []
      | Some sn \<Rightarrow>
          if sn \<noteq> [] then (case local of None \<Rightarrow> [] | Some path \<Rightarrow> [line sn]) else [])"

definition script_lines ::
  "args \<Rightarrow> string option \<Rightarrow> string option \<Rightarrow> string option \<Rightarrow> string option \<Rightarrow>
   string option \<Rightarrow> string option \<Rightarrow> string list" where
  "script_lines a local_left local_right local_tip_left local_tip_right left_serial right_serial =
     [''set -euo pipefail'',
      ''mkdir -p /data/robot/pipettes/left /data/robot/pipettes/right /data/tip_lengths /data/robot'',
      cal_dir_line,
      mirror_line (remote_tmp a),
      ''cp '' @ remote_tmp a @ ''/deck_calibration.json '' @ remote_deck_final,
      validator_line]
     @ appended left_serial local_left
         (\<lambda>sn. ''cp '' @ remote_tmp a @ ''/'' @ sn @ ''.left.pipette.json /data/robot/pipettes/left/''
                 @ sn @ ''.json'')
     @ appended right_serial local_right
         (\<lambda>sn. ''cp '' @ remote_tmp a @ ''/'' @ sn @ ''.right.pipette.json /data/robot/pipettes/right/''
                 @ sn @ ''.json'')
     @ appended left_serial local_tip_left
         (\<lambda>sn. ''cp '' @ remote_tmp a @ ''/'' @ sn @ ''.tip_lengths.json /data/tip_lengths/''
                 @ sn @ ''.json'')
     @ appended right_serial local_tip_right
         (\<lambda>sn. ''cp '' @ remote_tmp a @ ''/'' @ sn @ ''.tip_lengths.json /data/tip_lengths/''
                 @ sn @ ''.json'')"

definition remote_script ::
  "args \<Rightarrow> string option \<Rightarrow> string option \<Rightarrow> string option \<Rightarrow> string option \<Rightarrow>
   string option \<Rightarrow> string option \<Rightarrow> string" where
  "remote_script a local_left local_right local_tip_left local_tip_right left_serial right_serial =
     py_join '' && ''
       (script_lines a local_left local_right local_tip_left local_tip_right left_serial right_serial)"

text \<open>
  The rest of \<^verbatim>\<open>_remote_apply\<close>:
  \<^verbatim>\<open>
  if args.dry_run:
      print("[dry-run] files that would be uploaded:")
      for src, dst in to_copy:
          print(f"  {src} -> {dst}")
      print("[dry-run] remote apply script:")
      print(remote_script)
      return

  _run(_ssh_base(args) + [f"mkdir -p {remote_tmp}"], check=True)
  for src, dst in to_copy:
      _ssh_copy_file(args, src, dst)
  _run(_ssh_base(args) + [remote_script], check=True)
  if getattr(args, "restart_robot_server", False):
      _run(_ssh_base(args) + ["systemctl restart opentrons-robot-server"], check=True)
      _wait_for_robot_server_ready(args.host, args.api_port, args.api_version,
                                   float(args.restart_wait_seconds))
  \<close>
\<close>

definition remote_apply ::
  "world \<Rightarrow> args \<Rightarrow> string option \<Rightarrow> string option \<Rightarrow> string option \<Rightarrow> string option \<Rightarrow>
   string \<Rightarrow> string option \<Rightarrow> string option \<Rightarrow> unit io" where
  "remote_apply w a local_left local_right local_tip_left local_tip_right local_deck
                left_serial right_serial =
     (let files = to_copy a local_left local_right local_tip_left local_tip_right local_deck
                    left_serial right_serial;
          script = remote_script a local_left local_right local_tip_left local_tip_right
                     left_serial right_serial
      in if dry_run a then
           io_then (io_emit (Print ''[dry-run] files that would be uploaded:''))
          (io_then (io_for files (\<lambda>f. io_emit (Print (''  '' @ fst f @ '' -> '' @ snd f))))
          (io_then (io_emit (Print ''[dry-run] remote apply script:''))
                   (io_emit (Print script))))
         else
           io_bind (run w (ssh_base a @ [''mkdir -p '' @ remote_tmp a])) (\<lambda>p1.
           io_then (io_for files (\<lambda>f. ssh_copy_file w a (fst f) (snd f)))
          (io_bind (run w (ssh_base a @ [script])) (\<lambda>p2.
           if restart_robot_server a then
             io_bind (run w (ssh_base a @ [''systemctl restart opentrons-robot-server''])) (\<lambda>p3.
             wait_for_robot_server_ready (host a) (api_port a) (api_version a)
               (restart_wait_seconds a) (ready_start w) (ready_rounds w))
           else io_return ()))))"

section \<open>The main program\<close>

text \<open>
  \<^verbatim>\<open>
  def _slug(value):
      value = value.strip().lower()
      out = []
      prev_dash = False
      for ch in value:
          keep = ("a" <= ch <= "z") or ("0" <= ch <= "9") or ch in "._-"
          if keep:
              out.append(ch)
              prev_dash = False
          else:
              if not prev_dash:
                  out.append("-")
              prev_dash = True
      s = "".join(out).strip("-")
      while "--" in s:
          s = s.replace("--", "-")
      return s or "ot2"
  \<close>
\<close>

fun slug_loop :: "string \<Rightarrow> bool \<Rightarrow> string" where
  "slug_loop [] prev_dash = []"
| "slug_loop (ch # rest) prev_dash =
     (if ch \<in> set ''abcdefghijklmnopqrstuvwxyz0123456789._-'' then ch # slug_loop rest False
      else if \<not> prev_dash then CHR ''-'' # slug_loop rest True
      else slug_loop rest True)"

definition strip_dashes :: "string \<Rightarrow> string" where
  "strip_dashes s =
     rev (dropWhile (\<lambda>c. c = CHR ''-'') (rev (dropWhile (\<lambda>c. c = CHR ''-'') s)))"

text \<open>One pass of \<^verbatim>\<open>s.replace("--", "-")\<close>, left to right.\<close>

fun replace_dashes :: "string \<Rightarrow> string" where
  "replace_dashes (a # b # rest) =
     (if a = CHR ''-'' \<and> b = CHR ''-'' then CHR ''-'' # replace_dashes rest
      else a # replace_dashes (b # rest))"
| "replace_dashes s = s"

lemma length_replace_dashes_le: "length (replace_dashes s) \<le> length s"
  by (induction s rule: replace_dashes.induct) auto

lemma length_replace_dashes_less:
  "is_substring ''--'' s \<Longrightarrow> length (replace_dashes s) < length s"
proof (induction s rule: replace_dashes.induct)
  case (1 a b rest)
  show ?case
  proof (cases "a = CHR ''-'' \<and> b = CHR ''-''")
    case True
    then show ?thesis
      using length_replace_dashes_le [of rest] by simp
  next
    case False
    with "1.prems" have "is_substring ''--'' (b # rest)" by auto
    with False "1.IH"(2) show ?thesis by auto
  qed
qed simp_all

function collapse_dashes :: "string \<Rightarrow> string" where
  "collapse_dashes s = (if is_substring ''--'' s then collapse_dashes (replace_dashes s) else s)"
  by pat_completeness auto
termination
  by (relation "measure length") (simp_all add: length_replace_dashes_less)

definition slug :: "string \<Rightarrow> string" where
  "slug v =
     (let s = collapse_dashes (strip_dashes (slug_loop (py_lower (py_strip v)) False))
      in if s \<noteq> [] then s else ''ot2'')"

text \<open>
  \<^verbatim>\<open>
  def _robot_name(host, api_port, api_version):
      url = f"http://{host}:{api_port}/health"
      payload = _http_json(url, api_version, timeout=5.0)
      return str(payload.get("name") or "opentrons")
  \<close>
  on the outcome of the request.
\<close>

definition robot_name :: "http_outcome \<Rightarrow> error + string" where
  "robot_name response =
     (case http_json response of
        Inl e \<Rightarrow> Inl e
      | Inr payload \<Rightarrow>
          (case py_get payload ''name'' JNull of
             Inl e \<Rightarrow> Inl e
           | Inr n \<Rightarrow> Inr (py_str (if py_truthy n then n else JStr ''opentrons''))))"

text \<open>
  \<^verbatim>\<open>_ssh_preflight\<close>: run \<^verbatim>\<open>true\<close> on the robot; a non-zero exit raises, with a hint
  at the generated public key when that file exists.
\<close>

definition preflight_extra :: "world \<Rightarrow> args \<Rightarrow> string" where
  "preflight_extra w a =
     (if robot_name_attr a \<noteq> [] then
        (let key_dir = expanduser w
                         (py_path (if ssh_key_dir_attr a \<noteq> [] then ssh_key_dir_attr a
                                   else default_key_dir w));
             pub = path_join key_dir (''ot2_'' @ slug (robot_name_attr a) @ ''_ed25519.pub'')
         in if is_file w pub
            then nl @ ''If you need to authorize a key on the robot, you can use this generated public key:''
                 @ nl @ ''  '' @ pub @ nl
            else [])
      else [])"

definition ssh_preflight :: "world \<Rightarrow> args \<Rightarrow> unit io" where
  "ssh_preflight w a =
     (let cmd = ssh_base a @ [''true''];
          p = exec_result w cmd
      in io_then (io_emit (Exec cmd))
           (if returncode p = 0 then io_return ()
            else io_raise (AuthenticationError
                   (''Unable to SSH to the robot with the current settings.'' @ nl
                    @ ''  target: '' @ ssh_user a @ ''@'' @ host a @ '':'' @ str_of_int (ssh_port a) @ nl
                    @ ''  detail: '' @ failure_detail p @ nl @ nl
                    @ ''Fix options:'' @ nl
                    @ ''- Provide an authorized key: --ssh-key /path/to/private_key'' @ nl
                    @ ''- Or (if the robot allows password auth) run once with: --ensure-ssh-key'' @ nl
                    @ preflight_extra w a))))"

text \<open>\<^verbatim>\<open>(proc.stderr or proc.stdout or "").strip() or f"exit code {proc.returncode}"\<close>\<close>

definition helper_detail :: "proc \<Rightarrow> string" where
  "helper_detail p =
     (let t = py_strip (if stderr p \<noteq> [] then stderr p else stdout p)
      in if t \<noteq> [] then t else ''exit code '' @ str_of_int (returncode p))"

text \<open>The template files must be there (lines 441 to 448 of the script).\<close>

definition main_check_files :: "world \<Rightarrow> unit io" where
  "main_check_files w =
     (if \<not> is_dir w (offsets_dir w) then
        io_raise (ConfigurationError
          (''Offsets directory not found: '' @ offsets_dir w @ ''. ''
           @ ''Pass --offsets-dir PATH, or ensure an offsets/ folder exists next to this script.''))
      else
        io_for [pipette_template_path w, tip_template_path w, deck_template_path w]
          (\<lambda>p. if \<not> is_file w p
                then io_raise (ConfigurationError (''Template file not found: '' @ p))
                else io_return ()))"

text \<open>The host is resolved by the helper script when \<^verbatim>\<open>--host\<close> is omitted
  (lines 450 to 474).\<close>

definition main_resolve_host :: "world \<Rightarrow> args \<Rightarrow> args io" where
  "main_resolve_host w a =
     (if host a \<noteq> [] then io_return a
      else
        (let host_resolver = path_join (script_dir w) ''ot2_resolve_host.py''
         in if \<not> is_file w host_resolver then
              io_raise (ConfigurationError
                (''--host was omitted and host resolver was not found: '' @ host_resolver @ ''. ''
                 @ ''Pass --host HOST.''))
            else
              (let cmd = [python_executable w, host_resolver, ''--port'', str_of_int (api_port a),
                          ''--api-version'', api_version a];
                   p = exec_result w cmd
               in io_then (io_emit (Exec cmd))
                    (if returncode p \<noteq> 0 then
                       io_raise (ConfigurationError
                         (''Failed to auto-resolve OT-2 host. Pass --host HOST.'' @ nl
                          @ helper_detail p))
                     else if py_strip (stdout p) = [] then
                       io_raise (ConfigurationError
                         ''Host resolver returned empty host. Pass --host HOST.'')
                     else io_return (a\<lparr>host := py_strip (stdout p)\<rparr>)))))"

text \<open>The robot name is asked of \<^verbatim>\<open>/health\<close>; any failure gives
  \<^verbatim>\<open>"opentrons"\<close> (lines 476 to 481).\<close>

definition main_robot_name :: "world \<Rightarrow> args \<Rightarrow> args io" where
  "main_robot_name w a =
     io_then (io_emit (HttpGet (health_url (host a) (api_port a))))
       (io_return
          (a\<lparr>robot_name_attr :=
                (case robot_name (health_outcome w) of Inl e \<Rightarrow> ''opentrons'' | Inr n \<Rightarrow> n),
              ssh_key_dir_attr := ssh_key_dir a\<rparr>))"

text \<open>A per-robot key that already exists is used (lines 485 to 489).\<close>

definition main_default_key :: "world \<Rightarrow> args \<Rightarrow> args" where
  "main_default_key w a =
     (if ssh_key a = [] then
        (let key_dir = (if ssh_key_dir a \<noteq> [] then expanduser w (py_path (ssh_key_dir a))
                        else default_key_dir w);
             candidate = path_join key_dir (''ot2_'' @ slug (robot_name_attr a) @ ''_rsa'')
         in if is_file w candidate then a\<lparr>ssh_key := candidate\<rparr> else a)
      else a)"

text \<open>Without a key, and unless this is a dry run, the key helper is run
  (lines 491 to 541).\<close>

definition main_ensure_key :: "world \<Rightarrow> args \<Rightarrow> args io" where
  "main_ensure_key w a =
     (let auto_ensure = (ensure_ssh_key a \<or> \<not> no_ensure_ssh_key a);
          ssh_key_helper = path_join (script_dir w) ''ot2_ensure_ssh_key.py''
      in if ssh_key a = [] \<and> auto_ensure \<and> \<not> dry_run a then
           (if \<not> is_file w ssh_key_helper then
              io_raise (ConfigurationError
                (''SSH key helper was not found: '' @ ssh_key_helper @ ''. ''
                 @ ''Provide --ssh-key PATH or pass --no-ensure-ssh-key.''))
            else
              (let ensure_cmd =
                     [python_executable w, ssh_key_helper, ''--host'', host a,
                      ''--api-port'', str_of_int (api_port a), ''--api-version'', api_version a,
                      ''--ssh-user'', ssh_user a, ''--ssh-port'', str_of_int (ssh_port a),
                      ''--scope'', ssh_key_scope a, ''--ensure-authorized'']
                     @ (if ssh_key_dir a \<noteq> [] then [''--key-dir'', ssh_key_dir a] else []);
                   p = exec_result w ensure_cmd
               in io_then (io_emit (Exec ensure_cmd))
                    (if returncode p \<noteq> 0 then
                       (if is_substring ''Permission denied (publickey)'' (helper_detail p) then
                          io_raise (AuthenticationError
                            (''Failed to set up SSH key for '' @ ssh_user a @ ''@'' @ host a @ '':''
                             @ str_of_int (ssh_port a) @ ''.'' @ nl @ helper_detail p @ nl @ nl
                             @ ''This usually means the robot is configured for publickey-only SSH and does not allow password-based login, ''
                             @ ''so the helper cannot install a new key automatically.'' @ nl @ nl
                             @ ''Fix options:'' @ nl
                             @ ''- Provide an already-authorized private key with --ssh-key'' @ nl
                             @ ''- Or authorize the generated public key on the robot out-of-band (reimage / console access), then re-run''
                             @ nl))
                        else
                          io_raise (AuthenticationError
                            (''Failed to ensure SSH key for '' @ ssh_user a @ ''@'' @ host a @ '':''
                             @ str_of_int (ssh_port a) @ ''.'' @ nl @ helper_detail p)))
                     else if py_strip (stdout p) = [] then
                       io_raise (AuthenticationError ''SSH key helper returned empty key path.'')
                     else io_return (a\<lparr>ssh_key := py_strip (stdout p)\<rparr>))))
         else io_return a)"

text \<open>
  The attached pipettes are read, the templates are loaded, the serials are printed
  (lines 546 to 558):
  \<^verbatim>\<open>
  mounts = _attached_pipette_serials(args.host, args.api_port, args.api_version)
  left_serial = mounts.get("left")
  right_serial = mounts.get("right")
  if not left_serial and not right_serial:
      raise RuntimeError("No attached left/right pipettes were found via /instruments.")
  pipette_tpl = _load_json(pipette_template_path)
  tip_tpl = _load_json(tip_template_path)
  deck_tpl = _load_json(deck_template_path)
  print("Detected pipettes:")
  print(f"  left:  {left_serial or '<none>'}")
  print(f"  right: {right_serial or '<none>'}")
  \<close>
\<close>

definition instruments_url :: "string \<Rightarrow> int \<Rightarrow> string" where
  "instruments_url h port = ''http://'' @ h @ '':'' @ str_of_int port @ ''/instruments''"

definition serial_or :: "string option \<Rightarrow> string \<Rightarrow> string" where
  "serial_or serial d = (case serial of None \<Rightarrow> d | Some sn \<Rightarrow> if sn \<noteq> [] then sn else d)"

definition main_detect ::
  "world \<Rightarrow> args \<Rightarrow> (string option \<times> string option \<times> json \<times> json \<times> json) io" where
  "main_detect w a =
     io_then (io_emit (HttpGet (instruments_url (host a) (api_port a))))
    (io_bind (io_of (attached_pipette_serials (instruments_outcome w))) (\<lambda>mounts.
     let left_serial = mounts ''left''; right_serial = mounts ''right''
     in if \<not> opt_truthy left_serial \<and> \<not> opt_truthy right_serial then
          io_raise (NoInstrumentsError
            ''No attached left/right pipettes were found via /instruments.'')
        else
          io_bind (io_of (load_json w (pipette_template_path w))) (\<lambda>pipette_tpl.
          io_bind (io_of (load_json w (tip_template_path w))) (\<lambda>tip_tpl.
          io_bind (io_of (load_json w (deck_template_path w))) (\<lambda>deck_tpl.
          io_then (io_emit (Print ''Detected pipettes:''))
         (io_then (io_emit (Print (''  left:  '' @ serial_or left_serial ''<none>'')))
         (io_then (io_emit (Print (''  right: '' @ serial_or right_serial ''<none>'')))
                  (io_return (left_serial, right_serial, pipette_tpl, tip_tpl, deck_tpl)))))))))"

text \<open>
  The two files of one mount (lines 564 to 571 for the left mount, 573 to 580 for the right
  one, which differ in the name of the mount only):
  \<^verbatim>\<open>
  if left_serial:
      lp = _find_template_by_mount(pipette_tpl, "left")
      left_p_file = td_path / f"{left_serial}.left.pipette.json"
      _write_json(left_p_file, _build_pipette_file(lp))
      lt = _find_tip_template_for_pipette(tip_tpl, left_serial)
      left_t_file = td_path / f"{left_serial}.tip_lengths.json"
      _write_json(left_t_file, _build_tip_length_file(lt))
  \<close>
  The result is the pair of the two local files, \<open>None\<close> twice when the mount is empty.
  \<open>k\<close> and \<open>k + 1\<close> number the two readings of the clock.
\<close>

definition main_build_mount ::
  "world \<Rightarrow> json \<Rightarrow> json \<Rightarrow> string \<Rightarrow> nat \<Rightarrow> string option \<Rightarrow> (string option \<times> string option) io" where
  "main_build_mount w pipette_tpl tip_tpl mount k serial =
     (if \<not> opt_truthy serial then io_return (None, None)
      else
        (let sn = serial_or serial [];
             p_file = path_join (temp_dir w) (sn @ ''.'' @ mount @ ''.pipette.json'');
             t_file = path_join (temp_dir w) (sn @ ''.tip_lengths.json'')
         in io_bind (io_of (find_template_by_mount pipette_tpl mount)) (\<lambda>p_template.
            io_bind (io_of (build_pipette_file (utc_now w k) p_template)) (\<lambda>p_payload.
            io_then (io_emit (WriteJson p_file p_payload))
           (io_bind (io_of (find_tip_template_for_pipette tip_tpl serial)) (\<lambda>t_template.
            io_bind (io_of (build_tip_length_file (utc_now w (k + 1)) t_template)) (\<lambda>t_payload.
            io_then (io_emit (WriteJson t_file t_payload))
                    (io_return (Some p_file, Some t_file)))))))))"

text \<open>
  The deck file (lines 582 to 586):
  \<^verbatim>\<open>
  default_pipette_for_deck = right_serial or left_serial or ""
  deck_file = td_path / "deck_calibration.json"
  _write_json(deck_file, _build_deck_file(deck_tpl, default_pipette_for_deck))
  if not deck_file.is_file():
      raise RuntimeError(f"Failed to write deck calibration file: {deck_file}")
  \<close>
  The file has just been written when it is tested, so the test passes.
\<close>

definition main_build_deck ::
  "world \<Rightarrow> json \<Rightarrow> string option \<Rightarrow> string option \<Rightarrow> string io" where
  "main_build_deck w deck_tpl left_serial right_serial =
     (let default_pipette_for_deck = serial_or right_serial (serial_or left_serial []);
          deck_file = path_join (temp_dir w) ''deck_calibration.json''
      in io_bind (io_of (build_deck_file (utc_now w 4) deck_tpl default_pipette_for_deck)) (\<lambda>payload.
         io_then (io_emit (WriteJson deck_file payload))
                 (io_return deck_file)))"

text \<open>
  The payloads are listed and applied (lines 588 to 613). The bytes
  \<^verbatim>\<open>C3 A2 E2 82 AC E2 80 9C\<close> are the three characters that stand between
  \<^verbatim>\<open>~1\<close> and \<^verbatim>\<open>3 minutes\<close> in the source file.
\<close>

definition main_apply ::
  "world \<Rightarrow> args \<Rightarrow> string option \<Rightarrow> string option \<Rightarrow> string option \<Rightarrow> string option \<Rightarrow>
   string \<Rightarrow> string option \<Rightarrow> string option \<Rightarrow> unit io" where
  "main_apply w a left_p_file right_p_file left_t_file right_t_file deck_file
              left_serial right_serial =
     io_then (io_emit (Print ''Prepared local payloads:''))
    (io_then (io_for (concat (map (\<lambda>p. case p of None \<Rightarrow> [] | Some path \<Rightarrow> [path])
                                [left_p_file, right_p_file, left_t_file, right_t_file,
                                 Some deck_file]))
                (\<lambda>path. io_emit (Print (''  '' @ path))))
    (io_then (io_when (\<not> dry_run a \<and> restart_robot_server a)
                (io_emit (Print
                   (''Will restart opentrons-robot-server after copying files (expect ~1''
                    @ [CHR 0xC3, CHR 0xA2, CHR 0xE2, CHR 0x82, CHR 0xAC, CHR 0xE2, CHR 0x80, CHR 0x9C]
                    @ ''3 minutes of 502/503 responses).''))))
    (io_then (remote_apply w a left_p_file right_p_file left_t_file right_t_file deck_file
                left_serial right_serial)
    (io_then (io_emit (Print ''Done.''))
    (io_then (io_when (\<not> dry_run a \<and> \<not> restart_robot_server a)
                (io_emit (Print
                   ''Recommend rebooting or restarting robot-server before running tests.'')))
             (io_when (\<not> dry_run a \<and> restart_robot_server a)
                (io_emit (Print
                   ''robot-server was restarted to load deck calibration (API may have been unavailable briefly).''))))))))"

text \<open>
  \<^verbatim>\<open>main\<close>, from the parsed arguments on. The restart is on unless
  \<^verbatim>\<open>--no-restart-robot-server\<close> is given (lines 424 to 427).
\<close>

definition main_deploy :: "world \<Rightarrow> args \<Rightarrow> unit io" where
  "main_deploy w a =
     io_bind (main_detect w a) (\<lambda>(left_serial, right_serial, pipette_tpl, tip_tpl, deck_tpl).
     io_bind (main_build_mount w pipette_tpl tip_tpl ''left'' 0 left_serial) (\<lambda>(left_p_file, left_t_file).
     io_bind (main_build_mount w pipette_tpl tip_tpl ''right'' 2 right_serial) (\<lambda>(right_p_file, right_t_file).
     io_bind (main_build_deck w deck_tpl left_serial right_serial) (\<lambda>deck_file.
     main_apply w a left_p_file right_p_file left_t_file right_t_file deck_file
       left_serial right_serial))))"

definition main :: "world \<Rightarrow> args \<Rightarrow> unit io" where
  "main w a0 =
     io_then (main_check_files w)
    (io_bind (main_resolve_host w
                (a0\<lparr>restart_robot_server := \<not> no_restart_robot_server a0\<rparr>)) (\<lambda>a1.
     io_bind (main_robot_name w a1) (\<lambda>a2.
     io_bind (main_ensure_key w (main_default_key w a2)) (\<lambda>a3.
     io_then (io_when (\<not> dry_run a3) (ssh_preflight w a3))
             (main_deploy w a3)))))"

section \<open>Vocabulary of the properties\<close>

text \<open>A field of a dictionary holds a true value: the key is present and its value is
  neither null, false, zero nor empty.\<close>

definition field_truthy :: "(string \<times> json) list \<Rightarrow> string \<Rightarrow> bool" where
  "field_truthy deck k = (case map_of deck k of Some v \<Rightarrow> py_truthy v | None \<Rightarrow> False)"

text \<open>The nested shape of a deck template, around the record \<open>deck\<close>.\<close>

definition nested_deck :: "json \<Rightarrow> json" where
  "nested_deck deck = JObj [(''deckCalibration'', JObj [(''data'', deck)])]"

text \<open>A document is a dictionary.\<close>

fun is_dict :: "json \<Rightarrow> bool" where
  "is_dict (JObj kvs) = True"
| "is_dict _ = False"

text \<open>The text of a field of an entry, as the loops read it: \<^verbatim>\<open>str(entry.get(k, ""))\<close>.\<close>

definition field_text :: "json \<Rightarrow> string \<Rightarrow> string" where
  "field_text entry k = (case py_get entry k (JStr []) of Inr v \<Rightarrow> py_str v | Inl e \<Rightarrow> [])"

text \<open>The two mounts of the robot, and the names under which \<^verbatim>\<open>main\<close> asks for them.\<close>

datatype mount = Left | Right

fun mount_name :: "mount \<Rightarrow> string" where
  "mount_name Left = ''left''"
| "mount_name Right = ''right''"

definition same_ignoring_case :: "string \<Rightarrow> string \<Rightarrow> bool" where
  "same_ignoring_case a b \<longleftrightarrow> py_lower a = py_lower b"

text \<open>An entry of the instrument directory that binds the serial \<open>s\<close> to the mount \<open>m\<close>.\<close>

definition binds :: "json \<Rightarrow> string \<Rightarrow> string \<Rightarrow> bool" where
  "binds item m s \<longleftrightarrow>
     py_get item ''instrumentType'' JNull = Inr (JStr ''pipette'') \<and>
     py_lower (field_text item ''mount'') = m \<and> (m = ''left'' \<or> m = ''right'') \<and>
     py_strip (field_text item ''serialNumber'') = s \<and> s \<noteq> []"

text \<open>The arguments as \<^verbatim>\<open>argparse\<close> returns them when no option is given.\<close>

definition parsed_defaults :: args where
  "parsed_defaults =
     \<lparr>host = [], api_port = 31950, api_version = ''2'', ssh_user = ''root'', ssh_port = 22,
      ssh_key = [], ssh_key_dir = [], ssh_key_scope = ''per-robot'', ensure_ssh_key = False,
      no_ensure_ssh_key = False, dry_run = False, remote_tag = default_remote_tag,
      restart_robot_server = False, no_restart_robot_server = False,
      restart_wait_seconds = 120, robot_name_attr = [], ssh_key_dir_attr = []\<rparr>"




fun is_upload :: "event \<Rightarrow> bool" where
  "is_upload (ExecInput cmd src) = True"
| "is_upload _ = False"

text \<open>The health probes among the events of the waiter.\<close>

fun is_probe :: "event \<Rightarrow> bool" where
  "is_probe (HttpGet url) = True"
| "is_probe _ = False"

definition probes_issued :: "event list \<Rightarrow> nat" where
  "probes_issued trace = length (filter is_probe trace)"

text \<open>The failure detail that the waiter keeps of a probe, if the probe failed.\<close>

fun failure_text :: "http_outcome \<Rightarrow> string option" where
  "failure_text (Responded payload) = None"
| "failure_text (HTTPError code body) = Some (''HTTP '' @ str_of_int code @ '': '' @ take 200 body)"
| "failure_text (OtherFailure name msg) = Some (name @ '': '' @ msg)"

definition timeout_message :: "string \<Rightarrow> string \<Rightarrow> error" where
  "timeout_message url detail =
     ReadinessTimeoutError
       (''Timed out waiting for robot-server to become ready at '' @ url @ ''.'' @ nl @ detail)"

text \<open>
  A sample world: a lab with a pipette \<^verbatim>\<open>P300L123\<close> on the left mount, a pipette-offset
  template for the left mount only, one tip-length template, an identity deck attitude, a
  robot where every command and upload succeeds and whose server answers the second probe
  after a restart.
\<close>

definition ok_proc :: proc where
  "ok_proc = \<lparr>returncode = 0, stdout = [], stderr = []\<rparr>"

definition lab_pipette_template :: json where
  "lab_pipette_template =
     JObj [(''data'', JArr [JObj [(''mount'', JStr ''left''),
             (''offset'', JArr [JInt 0, JInt 0, JInt 0]), (''tiprack'', JStr ''hash1'')]])]"

definition lab_tip_template :: json where
  "lab_tip_template =
     JObj [(''data'', JArr [JObj [(''pipette'', JStr ''P300L123''),
             (''tipLength'', JFloat ''51.2''), (''tiprack'', JStr ''hash1''),
             (''uri'', JStr ''opentrons/tiprack/1'')]])]"

definition lab_deck_template :: json where
  "lab_deck_template =
     JObj [(''attitude'', JArr [JArr [JInt 1, JInt 0, JInt 0],
             JArr [JInt 0, JInt 1, JInt 0], JArr [JInt 0, JInt 0, JInt 1]])]"

definition lab_instruments :: "string \<Rightarrow> json" where
  "lab_instruments m =
     JObj [(''data'', JArr [JObj [(''instrumentType'', JStr ''pipette''),
             (''mount'', JStr m), (''serialNumber'', JStr ''P300L123''), (''ok'', JBool True)]])]"

definition lab_world :: "string \<Rightarrow> world" where
  "lab_world m =
     \<lparr>python_executable = ''/usr/bin/python3'', script_dir = ''/opt/ot2'',
      default_key_dir = ''/home/ana/.config/opentrons-tools/ssh'', expanduser = (\<lambda>p. p),
      temp_dir = ''/tmp/aso'',
      offsets_dir = ''/opt/ot2/offsets'',
      pipette_template_path = ''/opt/ot2/offsets/pipette_offsets_all.json'',
      tip_template_path = ''/opt/ot2/offsets/tip_length_offsets_all.json'',
      deck_template_path = ''/opt/ot2/offsets/calibration_status_with_deck_offset.json'',
      is_dir = (\<lambda>p. True),
      is_file = (\<lambda>p. True),
      load_json = (\<lambda>p.
        if p = ''/opt/ot2/offsets/pipette_offsets_all.json'' then Inr lab_pipette_template
        else if p = ''/opt/ot2/offsets/tip_length_offsets_all.json'' then Inr lab_tip_template
        else Inr lab_deck_template),
      exec_result = (\<lambda>cmd. ok_proc),
      upload_result = (\<lambda>cmd src. ok_proc),
      health_outcome = OtherFailure ''URLError'' ''refused'',
      instruments_outcome = Responded (lab_instruments m),
      utc_now = (\<lambda>k. ''2026-01-01T00:00:00+00:00''),
      ready_start = 1000,
      ready_rounds = [(1000, HTTPError 503 ''starting''), (1002, Responded (JObj []))]\<rparr>"

definition lab_args :: args where
  "lab_args = parsed_defaults\<lparr>host := ''10.0.0.5'', ssh_key := ''/home/ana/.ssh/ot2''\<rparr>"

text \<open>Every event of a computation satisfies \<open>P\<close>.\<close>

definition only_events :: "(event \<Rightarrow> bool) \<Rightarrow> 'a io \<Rightarrow> bool" where
  "only_events P m \<longleftrightarrow> (\<forall>ev\<in>set (snd m). P ev)"

text \<open>A computation that ends (it returns or raises) and uploads nothing, and one that
  raises and uploads nothing.\<close>

definition ends_unstaged :: "'a io \<Rightarrow> bool" where
  "ends_unstaged m \<longleftrightarrow> fst m \<noteq> Unfinished \<and> only_events (\<lambda>ev. \<not> is_upload ev) m"

definition fails_unstaged :: "'a io \<Rightarrow> bool" where
  "fails_unstaged m \<longleftrightarrow> (\<exists>e. fst m = Raised e) \<and> only_events (\<lambda>ev. \<not> is_upload ev) m"

text \<open>The command that resolves the host when \<^verbatim>\<open>--host\<close> is omitted, and the events
  that a dry run may produce: requests to the robot's HTTP interface, that command, local
  files written, lines printed.\<close>

definition resolver_command :: "world \<Rightarrow> args \<Rightarrow> string list" where
  "resolver_command w a =
     [python_executable w, path_join (script_dir w) ''ot2_resolve_host.py'', ''--port'',
      str_of_int (api_port a), ''--api-version'', api_version a]"

fun dry_run_event :: "world \<Rightarrow> args \<Rightarrow> event \<Rightarrow> bool" where
  "dry_run_event w a (HttpGet url) = True"
| "dry_run_event w a (Exec cmd) = (host a = [] \<and> cmd = resolver_command w a)"
| "dry_run_event w a (ExecInput cmd src) = False"
| "dry_run_event w a (WriteJson path payload) = True"
| "dry_run_event w a (Print line) = True"
| "dry_run_event w a (Sleep seconds) = False"

section \<open>The deck calibration record\<close>

lemma deck_attitude_obj:
  "deck_attitude (JObj deck) =
     (if field_truthy deck ''attitude'' then Inr (the (map_of deck ''attitude''))
      else if field_truthy deck ''matrix'' then Inr (the (map_of deck ''matrix''))
      else Inl (SchemaMismatchError ''Deck template missing calibration attitude/matrix.''))"
  by (simp add: deck_attitude_def field_truthy_def split: option.splits)

lemma build_deck_file_obj:
  "deck_unwrap deck_source = Inr (JObj deck) \<Longrightarrow>
   build_deck_file now deck_source dp =
     (case deck_attitude (JObj deck) of
        Inl e \<Rightarrow> Inl e
      | Inr attitude \<Rightarrow>
          Inr (JObj [(''attitude'', attitude), (''last_modified'', JStr now),
                     (''source'', case map_of deck ''source'' of Some v \<Rightarrow> v | None \<Rightarrow> JStr ''user''),
                     (''pipette_calibrated_with'',
                        case map_of deck ''pipette_calibrated_with'' of
                          Some v \<Rightarrow> v
                        | None \<Rightarrow> (case map_of deck ''pipetteCalibratedWith'' of
                                     Some v \<Rightarrow> v | None \<Rightarrow> JStr dp)),
                     (''tiprack'', case map_of deck ''tiprack'' of Some v \<Rightarrow> v | None \<Rightarrow> JNull),
                     (''status'', case map_of deck ''status'' of Some v \<Rightarrow> v | None \<Rightarrow> default_status)]))"
  by (simp add: build_deck_file_def split: sum.splits)


lemma unwrap_flat_cons:
  "k \<noteq> ''deckCalibration'' \<Longrightarrow>
   deck_unwrap (JObj ((k, M) # rest)) =
     (if ''deckCalibration'' \<in> fst ` set rest
      then (case py_item (JObj rest) ''deckCalibration'' of Inl e \<Rightarrow> Inl e | Inr dc \<Rightarrow> py_item dc ''data'')
      else Inr (JObj ((k, M) # rest)))"
  by (auto simp: deck_unwrap_def)

lemma unwrap_nested: "deck_unwrap (nested_deck d) = Inr d"
  by (simp add: deck_unwrap_def nested_deck_def)

lemma build_obj_variants:
  assumes "''attitude'' \<notin> fst ` set rest" "''matrix'' \<notin> fst ` set rest"
    and "deck_unwrap s1 = Inr (JObj ((''attitude'', M) # rest))"
    and "deck_unwrap s2 = Inr (JObj ((''matrix'', M) # rest))"
  shows "build_deck_file now s1 dp = build_deck_file now s2 dp"
proof -
  have n: "map_of rest ''attitude'' = None" "map_of rest ''matrix'' = None"
    using assms(1,2) by (simp_all add: map_of_eq_None_iff)
  show ?thesis
    unfolding build_deck_file_obj [OF assms(3)] build_deck_file_obj [OF assms(4)]
    by (simp add: deck_attitude_obj field_truthy_def n split: option.splits)
qed

text \<open>
  Claim C4. A deck template that carries the matrix \<open>M\<close> under the key
  \<^verbatim>\<open>attitude\<close> and the template that carries it under the key \<^verbatim>\<open>matrix\<close>, with the
  same other fields \<open>rest\<close> and the same timestamp, give the same result of
  \<open>build_deck_file\<close> (the same record, or the same error when \<open>M\<close> is empty), in the
  flat shape and in the nested shape.
\<close>

theorem build_deck_file_attitude_matrix_same:
  assumes "''attitude'' \<notin> fst ` set rest" and "''matrix'' \<notin> fst ` set rest"
  shows "build_deck_file now (JObj ((''attitude'', M) # rest)) default_pipette =
           build_deck_file now (JObj ((''matrix'', M) # rest)) default_pipette
       \<and> build_deck_file now (nested_deck (JObj ((''attitude'', M) # rest))) default_pipette =
           build_deck_file now (nested_deck (JObj ((''matrix'', M) # rest))) default_pipette"
proof
  show "build_deck_file now (nested_deck (JObj ((''attitude'', M) # rest))) default_pipette =
           build_deck_file now (nested_deck (JObj ((''matrix'', M) # rest))) default_pipette"
    by (rule build_obj_variants [OF assms]) (rule unwrap_nested)+
next
  show "build_deck_file now (JObj ((''attitude'', M) # rest)) default_pipette =
           build_deck_file now (JObj ((''matrix'', M) # rest)) default_pipette"
  proof (cases "''deckCalibration'' \<in> fst ` set rest")
    case True
    then show ?thesis
      by (simp add: build_deck_file_def unwrap_flat_cons)
  next
    case False
    then show ?thesis
      by (intro build_obj_variants [OF assms]) (simp_all add: unwrap_flat_cons)
  qed
qed

theorem build_deck_file_attitude_matrix_same_witness:
  "''attitude'' \<notin> fst ` set [(''source'', JStr ''factory'')]
   \<and> ''matrix'' \<notin> fst ` set [(''source'', JStr ''factory'')]
   \<and> build_deck_file ''2026-01-01T00:00:00+00:00''
        (JObj [(''matrix'', JArr [JArr [JInt 1, JInt 0], JArr [JInt 0, JInt 1]]),
               (''source'', JStr ''factory'')]) ''P300L123''
     = Inr (JObj [(''attitude'', JArr [JArr [JInt 1, JInt 0], JArr [JInt 0, JInt 1]]),
                  (''last_modified'', JStr ''2026-01-01T00:00:00+00:00''),
                  (''source'', JStr ''factory''),
                  (''pipette_calibrated_with'', JStr ''P300L123''),
                  (''tiprack'', JNull),
                  (''status'', default_status)])
   \<and> build_deck_file ''2026-01-01T00:00:00+00:00''
        (JObj [(''attitude'', JArr [JArr [JInt 1, JInt 0], JArr [JInt 0, JInt 1]]),
               (''source'', JStr ''factory'')]) ''P300L123''
     = build_deck_file ''2026-01-01T00:00:00+00:00''
        (JObj [(''matrix'', JArr [JArr [JInt 1, JInt 0], JArr [JInt 0, JInt 1]]),
               (''source'', JStr ''factory'')]) ''P300L123''"
  using build_deck_file_attitude_matrix_same
          [of "[(''source'', JStr ''factory'')]" "''2026-01-01T00:00:00+00:00''"
              "JArr [JArr [JInt 1, JInt 0], JArr [JInt 0, JInt 1]]" "''P300L123''"]
  by (simp add: build_deck_file_def deck_unwrap_def deck_attitude_def)

text \<open>
  Claim C5, as the code has it. For a deck template whose unwrapped record is the dictionary
  \<open>deck\<close>, \<open>build_deck_file\<close> fails with the schema error exactly when neither
  \<^verbatim>\<open>attitude\<close> nor \<^verbatim>\<open>matrix\<close> holds a true (non-empty) value; in particular it fails
  when neither key is present. A record that is built carries as its attitude a true value
  that the template holds under one of the two keys: the attitude is never defaulted.
\<close>

theorem build_deck_file_schema_error_iff:
  assumes "deck_unwrap deck_source = Inr (JObj deck)"
  shows "((build_deck_file now deck_source default_pipette =
            Inl (SchemaMismatchError ''Deck template missing calibration attitude/matrix.''))
          = (\<not> field_truthy deck ''attitude'' \<and> \<not> field_truthy deck ''matrix''))
       \<and> (map_of deck ''attitude'' = None \<and> map_of deck ''matrix'' = None \<longrightarrow>
            build_deck_file now deck_source default_pipette =
              Inl (SchemaMismatchError ''Deck template missing calibration attitude/matrix.''))
       \<and> (\<forall>built. build_deck_file now deck_source default_pipette = Inr built \<longrightarrow>
            (\<exists>v. py_get built ''attitude'' JNull = Inr v \<and> py_truthy v \<and>
                 (map_of deck ''attitude'' = Some v \<or> map_of deck ''matrix'' = Some v)))"
  unfolding build_deck_file_obj [OF assms] deck_attitude_obj
  by (auto simp: field_truthy_def split: option.splits)

theorem build_deck_file_schema_error_iff_witness:
  "deck_unwrap (JObj [(''source'', JStr ''factory'')]) = Inr (JObj [(''source'', JStr ''factory'')])
   \<and> map_of [(''source'', JStr ''factory'')] ''attitude'' = None
   \<and> map_of [(''source'', JStr ''factory'')] ''matrix'' = None
   \<and> build_deck_file ''2026-01-01T00:00:00+00:00'' (JObj [(''source'', JStr ''factory'')]) ''P300L123'' =
       Inl (SchemaMismatchError ''Deck template missing calibration attitude/matrix.'')"
proof -
  have u: "deck_unwrap (JObj [(''source'', JStr ''factory'')]) = Inr (JObj [(''source'', JStr ''factory'')])"
    by (simp add: deck_unwrap_def)
  show ?thesis
    using u build_deck_file_schema_error_iff
            [OF u, of "''2026-01-01T00:00:00+00:00''" "''P300L123''"]
    by simp
qed

text \<open>
  The claim C5 as it is written fails: the template \<^verbatim>\<open>{"attitude": []}\<close> has the
  \<^verbatim>\<open>attitude\<close> field present, and building from it raises the schema error.
\<close>

theorem build_deck_file_present_but_empty_counterexample:
  "deck_unwrap (JObj [(''attitude'', JArr [])]) = Inr (JObj [(''attitude'', JArr [])])
   \<and> map_of [(''attitude'', JArr [])] ''attitude'' = Some (JArr [])
   \<and> build_deck_file ''2026-01-01T00:00:00+00:00'' (JObj [(''attitude'', JArr [])]) ''P300L123'' =
       Inl (SchemaMismatchError ''Deck template missing calibration attitude/matrix.'')"
  by (simp add: deck_unwrap_def build_deck_file_def deck_attitude_def)



section \<open>The tip-length template\<close>

lemma tip_loop_find:
  "\<forall>e\<in>set entries. is_dict e \<Longrightarrow>
   find_tip_template_loop entries s = Inr (find (\<lambda>e. py_strip (field_text e ''pipette'') = s) entries)"
proof (induction entries)
  case Nil
  then show ?case by simp
next
  case (Cons e es)
  then obtain kvs where "e = JObj kvs" by (cases e) auto
  with Cons show ?case by (simp add: field_text_def)
qed

lemma tip_fallback_list:
  "py_get tpl ''data'' (JArr []) = Inr (JArr entries) \<Longrightarrow>
   find_tip_template_fallback tpl =
     (case entries of [] \<Rightarrow> Inl (TemplateNotFoundError ''No tip length templates found.'')
      | first # rest \<Rightarrow> Inr first)"
  by (simp add: find_tip_template_fallback_def split: list.splits)

text \<open>
  Claim C3, as the code has it. For a tip-length template set whose \<^verbatim>\<open>data\<close> is the list
  \<open>entries\<close> of dictionaries: when the preferred serial is non-empty and some entry's
  \<^verbatim>\<open>pipette\<close> field, read as text and stripped of the white space around it, equals the
  serial, the first such entry is selected; when the preferred serial is missing or empty,
  or no entry matches in that way, the first entry of the set is selected; when the set is
  empty the selection fails with the template-not-found error.
\<close>

theorem find_tip_template_selection:
  assumes "py_get tip_lengths ''data'' (JArr []) = Inr (JArr entries)"
      and "\<forall>e\<in>set entries. is_dict e"
  shows "(\<forall>s e. preferred = Some s \<and> s \<noteq> [] \<and>
             find (\<lambda>e. py_strip (field_text e ''pipette'') = s) entries = Some e \<longrightarrow>
             find_tip_template_for_pipette tip_lengths preferred = Inr e)
       \<and> (\<forall>first rest. entries = first # rest \<and>
             (preferred = None \<or> preferred = Some [] \<or>
              (\<forall>e\<in>set entries. Some (py_strip (field_text e ''pipette'')) \<noteq> preferred)) \<longrightarrow>
             find_tip_template_for_pipette tip_lengths preferred = Inr first)
       \<and> (entries = [] \<longrightarrow>
             find_tip_template_for_pipette tip_lengths preferred =
               Inl (TemplateNotFoundError ''No tip length templates found.''))"
proof -
  note fb = tip_fallback_list [OF assms(1)]
  have loop: "\<And>s. find_tip_template_loop entries s =
                Inr (find (\<lambda>e. py_strip (field_text e ''pipette'') = s) entries)"
    using assms(2) by (rule tip_loop_find)
  have none: "\<And>s. (\<forall>e\<in>set entries. Some (py_strip (field_text e ''pipette'')) \<noteq> Some s) \<Longrightarrow>
                find (\<lambda>e. py_strip (field_text e ''pipette'') = s) entries = None"
    by (simp add: find_None_iff)
  show ?thesis
  proof (cases preferred)
    case None
    then show ?thesis by (simp add: find_tip_template_for_pipette_def fb)
  next
    case (Some s)
    show ?thesis
    proof (cases "s = []")
      case True
      with Some show ?thesis by (simp add: find_tip_template_for_pipette_def fb)
    next
      case False
      have r: "find_tip_template_for_pipette tip_lengths (Some s) =
                 (case find (\<lambda>e. py_strip (field_text e ''pipette'') = s) entries of
                    Some e \<Rightarrow> Inr e
                  | None \<Rightarrow> find_tip_template_fallback tip_lengths)"
        using False
        by (simp add: find_tip_template_for_pipette_def assms(1) loop split: option.splits)
      show ?thesis
        unfolding Some r using False none [of s]
        by (auto simp: fb)
    qed
  qed
qed

text \<open>The witness is the example of the specification: entries for the serials
  \<^verbatim>\<open>S1\<close> and \<^verbatim>\<open>S2\<close>; the preferred serial \<^verbatim>\<open>S3\<close> yields the entry of
  \<^verbatim>\<open>S1\<close>, the preferred serial \<^verbatim>\<open>S2\<close> its own entry.\<close>

theorem find_tip_template_selection_witness:
  "py_get (JObj [(''data'', JArr [JObj [(''pipette'', JStr ''S1'')], JObj [(''pipette'', JStr ''S2'')]])])
      ''data'' (JArr [])
     = Inr (JArr [JObj [(''pipette'', JStr ''S1'')], JObj [(''pipette'', JStr ''S2'')]])
   \<and> is_dict (JObj [(''pipette'', JStr ''S1'')]) \<and> is_dict (JObj [(''pipette'', JStr ''S2'')])
   \<and> find_tip_template_for_pipette
        (JObj [(''data'', JArr [JObj [(''pipette'', JStr ''S1'')], JObj [(''pipette'', JStr ''S2'')]])])
        (Some ''S3'') = Inr (JObj [(''pipette'', JStr ''S1'')])
   \<and> find_tip_template_for_pipette
        (JObj [(''data'', JArr [JObj [(''pipette'', JStr ''S1'')], JObj [(''pipette'', JStr ''S2'')]])])
        (Some ''S2'') = Inr (JObj [(''pipette'', JStr ''S2'')])"
proof -
  let ?e1 = "JObj [(''pipette'', JStr ''S1'')]"
  let ?e2 = "JObj [(''pipette'', JStr ''S2'')]"
  let ?tpl = "JObj [(''data'', JArr [?e1, ?e2])]"
  have d: "py_get ?tpl ''data'' (JArr []) = Inr (JArr [?e1, ?e2])" by simp
  have o: "\<forall>e\<in>set [?e1, ?e2]. is_dict e" by simp
  have t: "py_strip (field_text ?e1 ''pipette'') = ''S1''"
          "py_strip (field_text ?e2 ''pipette'') = ''S2''"
    by (simp_all add: field_text_def py_str_def py_strip_def py_isspace_def)
  from find_tip_template_selection [OF d o, of "Some ''S3''"]
  have a: "find_tip_template_for_pipette ?tpl (Some ''S3'') = Inr ?e1"
    by (simp add: t)
  from find_tip_template_selection [OF d o, of "Some ''S2''"]
  have b: "find_tip_template_for_pipette ?tpl (Some ''S2'') = Inr ?e2"
    by (simp add: t)
  from d a b show ?thesis by simp
qed

text \<open>
  The claim C3 as it is written fails. In the set below the second entry is the first one
  whose \<^verbatim>\<open>pipette\<close> field equals the preferred serial \<^verbatim>\<open>S2\<close>; the entry selected
  is the first one, whose field is the different text \<^verbatim>\<open>" S2"\<close>.
\<close>

theorem find_tip_template_equal_field_counterexample:
  "find_tip_template_for_pipette
     (JObj [(''data'', JArr [JObj [(''pipette'', JStr '' S2''), (''uri'', JStr ''rack-a'')],
                             JObj [(''pipette'', JStr ''S2''), (''uri'', JStr ''rack-b'')]])])
     (Some ''S2'')
     = Inr (JObj [(''pipette'', JStr '' S2''), (''uri'', JStr ''rack-a'')])
   \<and> py_get (JObj [(''pipette'', JStr '' S2''), (''uri'', JStr ''rack-a'')]) ''pipette'' (JStr [])
       \<noteq> Inr (JStr ''S2'')
   \<and> py_get (JObj [(''pipette'', JStr ''S2''), (''uri'', JStr ''rack-b'')]) ''pipette'' (JStr [])
       = Inr (JStr ''S2'')"
  by (simp add: find_tip_template_for_pipette_def py_str_def py_strip_def py_isspace_def)

section \<open>The attached instruments\<close>

lemma attached_loop_step:
  "attached_pipette_serials_loop (JObj kvs # items) out =
     (if binds (JObj kvs) (py_lower (field_text (JObj kvs) ''mount''))
               (py_strip (field_text (JObj kvs) ''serialNumber''))
      then attached_pipette_serials_loop items
             (out(py_lower (field_text (JObj kvs) ''mount'') \<mapsto>
                  py_strip (field_text (JObj kvs) ''serialNumber'')))
      else attached_pipette_serials_loop items out)"
  by (simp add: binds_def field_text_def Let_def)

lemma attached_loop_sound:
  "attached_pipette_serials_loop items out = Inr out' \<Longrightarrow> out' m = Some s \<Longrightarrow>
   out m = Some s \<or> (\<exists>item\<in>set items. binds item m s)"
proof (induction items arbitrary: out)
  case Nil
  then show ?case by simp
next
  case (Cons item items)
  show ?case
  proof (cases item)
    case (JObj kvs)
    let ?m = "py_lower (field_text (JObj kvs) ''mount'')"
    let ?s = "py_strip (field_text (JObj kvs) ''serialNumber'')"
    show ?thesis
    proof (cases "binds (JObj kvs) ?m ?s")
      case True
      with Cons.prems(1) JObj
      have "attached_pipette_serials_loop items (out(?m \<mapsto> ?s)) = Inr out'"
        by (simp only: attached_loop_step if_True)
      from Cons.IH [OF this Cons.prems(2)]
      show ?thesis
      proof
        assume u: "(out(?m \<mapsto> ?s)) m = Some s"
        show ?thesis
        proof (cases "m = ?m")
          case True
          with u have "s = ?s" by simp
          with True \<open>binds (JObj kvs) ?m ?s\<close> JObj show ?thesis by simp
        next
          case False
          with u show ?thesis by simp
        qed
      next
        assume "\<exists>item\<in>set items. binds item m s"
        then show ?thesis by auto
      qed
    next
      case False
      with Cons.prems(1) JObj
      have "attached_pipette_serials_loop items out = Inr out'"
        by (simp only: attached_loop_step if_False)
      from Cons.IH [OF this Cons.prems(2)] show ?thesis by auto
    qed
  qed (use Cons.prems in simp_all)
qed

text \<open>
  What the code does check: a serial bound to a mount comes from an entry of the response of
  pipette type, whose mount is left or right and whose serial is not empty.
\<close>

lemma attached_pipette_serials_sound:
  assumes "attached_pipette_serials response = Inr mounts" and "mounts m = Some s"
  shows "\<exists>payload items. response = Responded payload \<and>
           py_get payload ''data'' (JArr []) = Inr items \<and>
           (\<exists>entries. py_iter items = Inr entries \<and> (\<exists>item\<in>set entries. binds item m s))"
proof -
  from assms(1) obtain payload where p: "response = Responded payload"
    by (cases response) (simp_all add: attached_pipette_serials_def http_json_def)
  from assms(1) p obtain items where i: "py_get payload ''data'' (JArr []) = Inr items"
    by (cases "py_get payload ''data'' (JArr [])")
       (simp_all add: attached_pipette_serials_def http_json_def)
  from assms(1) p i obtain entries where e: "py_iter items = Inr entries"
    by (cases "py_iter items") (simp_all add: attached_pipette_serials_def http_json_def)
  from assms(1) p i e have "attached_pipette_serials_loop entries Map.empty = Inr mounts"
    by (simp add: attached_pipette_serials_def http_json_def)
  from attached_loop_sound [OF this assms(2)] have "\<exists>item\<in>set entries. binds item m s"
    by simp
  with p i e show ?thesis by blast
qed

text \<open>
  Claim C7 at its failing input: the response lists one pipette on the left mount that is
  flagged as not operational (\<^verbatim>\<open>"ok": false\<close>), and the code binds its serial to the left
  mount all the same.
\<close>

theorem attached_pipette_serials_binds_not_ok:
  "attached_pipette_serials
     (Responded (JObj [(''data'', JArr [JObj [(''instrumentType'', JStr ''pipette''),
        (''mount'', JStr ''left''), (''serialNumber'', JStr ''P300L123''),
        (''ok'', JBool False)]])]))
   = Inr [''left'' \<mapsto> ''P300L123'']"
  by (simp add: attached_pipette_serials_def http_json_def py_str_def py_lower_def
        py_lower_char_def upper_letters_def lower_letters_def py_strip_def py_isspace_def)

section \<open>Traces of computations\<close>






section \<open>Staging, committing, validating\<close>








section \<open>The readiness waiter\<close>

lemma wait_loop_raises:
  "wait_loop url timeout_seconds start last_err rounds = (Raised e, trace) \<Longrightarrow>
   probes_issued trace < length rounds
   \<and> timeout_seconds < fst (rounds ! probes_issued trace) - start
   \<and> (\<forall>i<probes_issued trace. fst (rounds ! i) - start \<le> timeout_seconds)
   \<and> e = timeout_message url
           (if probes_issued trace = 0
            then (case last_err of None \<Rightarrow> ''timeout waiting for /health''
                  | Some d \<Rightarrow> if d \<noteq> [] then d else ''timeout waiting for /health'')
            else the (failure_text (snd (rounds ! (probes_issued trace - 1)))))
   \<and> (0 < probes_issued trace \<longrightarrow> failure_text (snd (rounds ! (probes_issued trace - 1))) \<noteq> None)"
proof (induction rounds arbitrary: last_err trace)
  case Nil
  then show ?case by simp
next
  case (Cons r rounds)
  obtain now probe where r: "r = (now, probe)" by (cases r)
  show ?case
  proof (cases "now - start > timeout_seconds")
    case True
    with Cons.prems r show ?thesis
      by (auto simp: io_raise_def probes_issued_def timeout_message_def)
  next
    case False
    show ?thesis
    proof (cases probe)
      case (Responded payload)
      with Cons.prems r False show ?thesis
        by (simp add: io_then_def io_bind_def io_emit_def io_return_def)
    next
      case (HTTPError code body)
      let ?le = "Some (''HTTP '' @ str_of_int code @ '': '' @ take 200 body)"
      obtain res t where w: "wait_loop url timeout_seconds start ?le rounds = (res, t)"
        by (cases "wait_loop url timeout_seconds start ?le rounds")
      with Cons.prems r False HTTPError
      have res: "res = Raised e" and trace: "trace = HttpGet url # Sleep 2 # t"
        by (auto simp: io_then_def io_bind_def io_emit_def split: outcome.splits)
      from Cons.IH [OF w [unfolded res]] trace HTTPError r False
      show ?thesis
        by (auto simp: probes_issued_def nth_Cons less_Suc_eq_0_disj split: nat.splits)
    next
      case (OtherFailure name msg)
      let ?le = "Some (name @ '': '' @ msg)"
      obtain res t where w: "wait_loop url timeout_seconds start ?le rounds = (res, t)"
        by (cases "wait_loop url timeout_seconds start ?le rounds")
      with Cons.prems r False OtherFailure
      have res: "res = Raised e" and trace: "trace = HttpGet url # Sleep 2 # t"
        by (auto simp: io_then_def io_bind_def io_emit_def split: outcome.splits)
      from Cons.IH [OF w [unfolded res]] trace OtherFailure r False
      show ?thesis
        by (auto simp: probes_issued_def nth_Cons less_Suc_eq_0_disj split: nat.splits)
    qed
  qed
qed

lemma wait_loop_late:
  "n < length rounds \<Longrightarrow>
   (\<forall>i<n. fst (rounds ! i) - start \<le> timeout_seconds \<and> failure_text (snd (rounds ! i)) \<noteq> None) \<Longrightarrow>
   timeout_seconds < fst (rounds ! n) - start \<Longrightarrow>
   wait_loop url timeout_seconds start last_err rounds
     = (Raised (timeout_message url
          (if n = 0
           then (case last_err of None \<Rightarrow> ''timeout waiting for /health''
                 | Some d \<Rightarrow> if d \<noteq> [] then d else ''timeout waiting for /health'')
           else (case failure_text (snd (rounds ! (n - 1))) of
                   Some d \<Rightarrow> d | None \<Rightarrow> ''timeout waiting for /health''))),
        concat (replicate n [HttpGet url, Sleep 2]))"
proof (induction rounds arbitrary: n last_err)
  case Nil
  then show ?case by simp
next
  case (Cons r rounds)
  obtain now probe where r: "r = (now, probe)" by (cases r)
  show ?case
  proof (cases n)
    case 0
    with Cons.prems r show ?thesis
      by (simp add: io_raise_def timeout_message_def)
  next
    case (Suc k)
    from Cons.prems Suc r have early: "\<not> timeout_seconds < now - start"
      and failed: "failure_text probe \<noteq> None"
      by auto
    from Cons.prems Suc have k: "k < length rounds"
      and late: "timeout_seconds < fst (rounds ! k) - start"
      and before: "\<forall>i<k. fst (rounds ! i) - start \<le> timeout_seconds
                         \<and> failure_text (snd (rounds ! i)) \<noteq> None"
      by auto
    from failed obtain d where d: "failure_text probe = Some d" by auto
    then have dne: "d \<noteq> []" by (cases probe) auto
    have step: "wait_loop url timeout_seconds start last_err (r # rounds)
                  = io_then (io_emit (HttpGet url))
                      (io_then (io_emit (Sleep 2))
                         (wait_loop url timeout_seconds start (Some d) rounds))"
      using early d r by (cases probe) auto
    have last: "failure_text (snd ((r # rounds) ! (Suc k - 1)))
                  = (if k = 0 then Some d else failure_text (snd (rounds ! (k - 1))))"
      using d r by (cases k) simp_all
    show ?thesis
      unfolding step Cons.IH [OF k before late, of "Some d"] Suc last
      using dne by (simp add: io_then_def io_bind_def io_emit_def)
  qed
qed

lemma wait_loop_probes_first:
  "fst r - start \<le> timeout_seconds \<Longrightarrow>
   \<exists>rest. snd (wait_loop url timeout_seconds start last_err (r # rounds)) = HttpGet url # rest"
  by (cases r; cases "snd r") (auto simp: io_then_def io_bind_def io_emit_def io_return_def
        split: outcome.splits)


lemma wait_ready_raised_shape:
  assumes "wait_for_robot_server_ready h port version timeout_seconds start rounds
             = (Raised e, trace)"
  shows "probes_issued trace < length rounds
       \<and> ((probes_issued trace = 0) = (timeout_seconds < fst (rounds ! 0) - start))
       \<and> (0 \<le> timeout_seconds \<and> fst (rounds ! 0) = start \<longrightarrow> 0 < probes_issued trace)
       \<and> (timeout_seconds < 0 \<and> start \<le> fst (rounds ! 0) \<longrightarrow> probes_issued trace = 0)
       \<and> (\<exists>detail. e = timeout_message (health_url h port) detail \<and>
            (if probes_issued trace = 0 then detail = ''timeout waiting for /health''
             else failure_text (snd (rounds ! (probes_issued trace - 1))) = Some detail))"
proof -
  from assms have w: "wait_loop (health_url h port) timeout_seconds start None rounds
                        = (Raised e, trace)"
    by (simp add: wait_for_robot_server_ready_def)
  note c = wait_loop_raises [OF w]
  let ?n = "probes_issued trace"
  have zero: "(?n = 0) = (timeout_seconds < fst (rounds ! 0) - start)"
  proof
    assume "?n = 0"
    with c show "timeout_seconds < fst (rounds ! 0) - start" by simp
  next
    assume late: "timeout_seconds < fst (rounds ! 0) - start"
    show "?n = 0"
    proof (rule ccontr)
      assume "?n \<noteq> 0"
      then have "0 < ?n" by simp
      with c have "fst (rounds ! 0) - start \<le> timeout_seconds" by blast
      with late show False by simp
    qed
  qed
  have detail: "\<exists>detail. e = timeout_message (health_url h port) detail \<and>
            (if ?n = 0 then detail = ''timeout waiting for /health''
             else failure_text (snd (rounds ! (?n - 1))) = Some detail)"
  proof (cases "?n = 0")
    case True
    with c show ?thesis by simp
  next
    case False
    with c obtain d where "failure_text (snd (rounds ! (?n - 1))) = Some d" by auto
    with c False show ?thesis by simp
  qed
  from c zero detail show ?thesis by auto
qed

text \<open>
  Claim C10, as the code has it. The waiter raises its timeout error without any probe
  exactly when the clock read by its first deadline check is already more than the timeout
  past the start: it does raise then, with the default detail and no event (so it does with
  a negative timeout and a clock that has not run backwards), and when the first check is
  not late it issues a probe first (so it does with a timeout of at least zero when the
  clock has not moved between the start and the first check). More generally, after
  \<open>n\<close> rounds whose check was in time and whose probe failed, a late check makes it raise
  with the detail of the last failed probe, after exactly \<open>n\<close> probes; and whenever it
  raises, this is how: the error carries the detail of the last failed probe when there is
  one, and the default text otherwise.
\<close>

theorem wait_for_robot_server_ready_raises:
  "(\<forall>n. n < length rounds
         \<and> (\<forall>i<n. fst (rounds ! i) - start \<le> timeout_seconds
                  \<and> failure_text (snd (rounds ! i)) \<noteq> None)
         \<and> timeout_seconds < fst (rounds ! n) - start
       \<longrightarrow> wait_for_robot_server_ready h port version timeout_seconds start rounds
             = (Raised (timeout_message (health_url h port)
                  (if n = 0 then ''timeout waiting for /health''
                   else (case failure_text (snd (rounds ! (n - 1))) of
                           Some d \<Rightarrow> d | None \<Rightarrow> ''timeout waiting for /health''))),
                concat (replicate n [HttpGet (health_url h port), Sleep 2])))
   \<and> (rounds \<noteq> [] \<and> timeout_seconds < fst (rounds ! 0) - start
       \<longrightarrow> wait_for_robot_server_ready h port version timeout_seconds start rounds
             = (Raised (timeout_message (health_url h port) ''timeout waiting for /health''), []))
   \<and> (rounds \<noteq> [] \<and> timeout_seconds < 0 \<and> start \<le> fst (rounds ! 0)
       \<longrightarrow> wait_for_robot_server_ready h port version timeout_seconds start rounds
             = (Raised (timeout_message (health_url h port) ''timeout waiting for /health''), []))
   \<and> (rounds \<noteq> [] \<and> fst (rounds ! 0) - start \<le> timeout_seconds
       \<longrightarrow> (\<exists>rest. snd (wait_for_robot_server_ready h port version timeout_seconds start rounds)
                     = HttpGet (health_url h port) # rest))
   \<and> (rounds \<noteq> [] \<and> 0 \<le> timeout_seconds \<and> fst (rounds ! 0) = start
       \<longrightarrow> (\<exists>rest. snd (wait_for_robot_server_ready h port version timeout_seconds start rounds)
                     = HttpGet (health_url h port) # rest))
   \<and> (\<forall>e trace. wait_for_robot_server_ready h port version timeout_seconds start rounds
                    = (Raised e, trace)
       \<longrightarrow> probes_issued trace < length rounds
           \<and> ((probes_issued trace = 0) = (timeout_seconds < fst (rounds ! 0) - start))
           \<and> (\<exists>detail. e = timeout_message (health_url h port) detail \<and>
                (if probes_issued trace = 0 then detail = ''timeout waiting for /health''
                 else failure_text (snd (rounds ! (probes_issued trace - 1))) = Some detail)))"
proof (intro conjI allI impI)
  fix n
  assume "n < length rounds
         \<and> (\<forall>i<n. fst (rounds ! i) - start \<le> timeout_seconds
                  \<and> failure_text (snd (rounds ! i)) \<noteq> None)
         \<and> timeout_seconds < fst (rounds ! n) - start"
  then show "wait_for_robot_server_ready h port version timeout_seconds start rounds
             = (Raised (timeout_message (health_url h port)
                  (if n = 0 then ''timeout waiting for /health''
                   else (case failure_text (snd (rounds ! (n - 1))) of
                           Some d \<Rightarrow> d | None \<Rightarrow> ''timeout waiting for /health''))),
                concat (replicate n [HttpGet (health_url h port), Sleep 2]))"
    using wait_loop_late [of n rounds start timeout_seconds "health_url h port" None]
    by (simp add: wait_for_robot_server_ready_def)
next
  assume "rounds \<noteq> [] \<and> timeout_seconds < fst (rounds ! 0) - start"
  then show "wait_for_robot_server_ready h port version timeout_seconds start rounds
             = (Raised (timeout_message (health_url h port) ''timeout waiting for /health''), [])"
    using wait_loop_late [of 0 rounds start timeout_seconds "health_url h port" None]
    by (simp add: wait_for_robot_server_ready_def)
next
  assume "rounds \<noteq> [] \<and> timeout_seconds < 0 \<and> start \<le> fst (rounds ! 0)"
  then show "wait_for_robot_server_ready h port version timeout_seconds start rounds
             = (Raised (timeout_message (health_url h port) ''timeout waiting for /health''), [])"
    using wait_loop_late [of 0 rounds start timeout_seconds "health_url h port" None]
    by (simp add: wait_for_robot_server_ready_def)
next
  assume a: "rounds \<noteq> [] \<and> fst (rounds ! 0) - start \<le> timeout_seconds"
  then obtain r rest where "rounds = r # rest" by (cases rounds) auto
  with a show "\<exists>rest. snd (wait_for_robot_server_ready h port version timeout_seconds start rounds)
                     = HttpGet (health_url h port) # rest"
    using wait_loop_probes_first [of r start timeout_seconds "health_url h port" None rest]
    by (simp add: wait_for_robot_server_ready_def)
next
  assume a: "rounds \<noteq> [] \<and> 0 \<le> timeout_seconds \<and> fst (rounds ! 0) = start"
  then obtain r rest where "rounds = r # rest" by (cases rounds) auto
  with a show "\<exists>rest. snd (wait_for_robot_server_ready h port version timeout_seconds start rounds)
                     = HttpGet (health_url h port) # rest"
    using wait_loop_probes_first [of r start timeout_seconds "health_url h port" None rest]
    by (simp add: wait_for_robot_server_ready_def)
next
  fix e trace
  assume r: "wait_for_robot_server_ready h port version timeout_seconds start rounds
               = (Raised e, trace)"
  from wait_ready_raised_shape [OF r]
  show "probes_issued trace < length rounds"
    and "(probes_issued trace = 0) = (timeout_seconds < fst (rounds ! 0) - start)"
    and "\<exists>detail. e = timeout_message (health_url h port) detail \<and>
                (if probes_issued trace = 0 then detail = ''timeout waiting for /health''
                 else failure_text (snd (rounds ! (probes_issued trace - 1))) = Some detail)"
    by blast+
qed

theorem wait_for_robot_server_ready_raises_witness:
  "wait_for_robot_server_ready ''10.0.0.5'' 31950 ''2'' 3 1000
     [(1000, HTTPError 503 ''starting''), (1002, OtherFailure ''URLError'' ''refused''),
      (1004, Responded (JObj []))]
     = (Raised (timeout_message ''http://10.0.0.5:31950/health'' ''URLError: refused''),
        [HttpGet ''http://10.0.0.5:31950/health'', Sleep 2,
         HttpGet ''http://10.0.0.5:31950/health'', Sleep 2])
   \<and> probes_issued [HttpGet ''http://10.0.0.5:31950/health'', Sleep 2,
         HttpGet ''http://10.0.0.5:31950/health'', Sleep 2] = 2
   \<and> wait_for_robot_server_ready ''10.0.0.5'' 31950 ''2'' (- 1) 1000
       [(1000, Responded (JObj []))]
     = (Raised (timeout_message ''http://10.0.0.5:31950/health'' ''timeout waiting for /health''),
        [])"
proof -
  let ?rounds = "[(1000, HTTPError 503 ''starting''), (1002, OtherFailure ''URLError'' ''refused''),
      (1004, Responded (JObj []))] :: (rat \<times> http_outcome) list"
  have p: "str_of_int 31950 = ''31950''" "str_of_int 503 = ''503''"
    by (simp_all add: str_of_int_def)
  have two: "\<And>P. (\<forall>i<2::nat. P i) = (P 0 \<and> P 1)"
    by (auto simp: less_Suc_eq numeral_2_eq_2)
  note t = wait_for_robot_server_ready_raises
             [of ?rounds 1000 3 "''10.0.0.5''" 31950 "''2''", THEN conjunct1, rule_format, of 2]
  have a: "wait_for_robot_server_ready ''10.0.0.5'' 31950 ''2'' 3 1000 ?rounds
     = (Raised (timeout_message ''http://10.0.0.5:31950/health'' ''URLError: refused''),
        [HttpGet ''http://10.0.0.5:31950/health'', Sleep 2,
         HttpGet ''http://10.0.0.5:31950/health'', Sleep 2])"
proof -
    have r: "replicate 2 x = [x, x]" for x :: "event list"
      by (simp add: numeral_2_eq_2)
    from t show ?thesis by (simp add: two health_url_def p r)
  qed
  note u = wait_for_robot_server_ready_raises
             [of "[(1000, Responded (JObj []))]" 1000 "- 1" "''10.0.0.5''" 31950 "''2''",
              THEN conjunct2, THEN conjunct2, THEN conjunct1]
  have b: "wait_for_robot_server_ready ''10.0.0.5'' 31950 ''2'' (- 1) 1000
       [(1000, Responded (JObj []))]
     = (Raised (timeout_message ''http://10.0.0.5:31950/health'' ''timeout waiting for /health''),
        [])"
    using u by (simp add: health_url_def p)
  from a b show ?thesis by (simp add: probes_issued_def)
qed

text \<open>
  The claim C10 as it is written fails: with a timeout of zero, when the clock has moved by
  a microsecond between \<^verbatim>\<open>start = time.time()\<close> and the first deadline check, the
  waiter raises without having probed, although the probe would have been answered.
\<close>

theorem wait_zero_timeout_no_probe_counterexample:
  "wait_for_robot_server_ready ''10.0.0.5'' 31950 ''2'' 0 1000
     [(1000 + 1 / 1000000, Responded (JObj []))]
     = (Raised (timeout_message ''http://10.0.0.5:31950/health'' ''timeout waiting for /health''),
        [])"
proof -
  have p: "str_of_int 31950 = ''31950''"
    by (simp add: str_of_int_def)
  show ?thesis
    by (simp add: wait_for_robot_server_ready_def health_url_def p timeout_message_def
          io_raise_def)
qed

section \<open>Events of the main program\<close>

lemma only_bind:
  "only_events P m \<Longrightarrow> (\<And>x. fst m = Returned x \<Longrightarrow> only_events P (f x)) \<Longrightarrow>
   only_events P (io_bind m f)"
  by (cases "fst m") (auto simp: only_events_def io_bind_def)

lemma only_then:
  "only_events P m \<Longrightarrow> (fst m = Returned () \<Longrightarrow> only_events P n) \<Longrightarrow> only_events P (io_then m n)"
  unfolding io_then_def by (rule only_bind) auto

lemma only_return: "only_events P (io_return x)"
  by (simp add: only_events_def io_return_def)

lemma only_raise: "only_events P (io_raise e)"
  by (simp add: only_events_def io_raise_def)

lemma only_of: "only_events P (io_of r)"
  by (simp add: only_events_def io_of_def split: sum.splits)

lemma only_emit: "P ev \<Longrightarrow> only_events P (io_emit ev)"
  by (simp add: only_events_def io_emit_def)

lemma only_when: "(b \<Longrightarrow> only_events P m) \<Longrightarrow> only_events P (io_when b m)"
  by (simp add: io_when_def only_return)

lemma only_for: "(\<And>x. x \<in> set xs \<Longrightarrow> only_events P (f x)) \<Longrightarrow> only_events P (io_for xs f)"
  by (induction xs) (auto intro: only_then only_return)

lemma only_if:
  "(c \<Longrightarrow> only_events P m) \<Longrightarrow> (\<not> c \<Longrightarrow> only_events P n) \<Longrightarrow>
   only_events P (if c then m else n)"
  by simp

lemmas only_intros =
  only_bind only_then only_return only_raise only_of only_emit only_when only_for only_if

lemma io_of_unfinished: "fst (io_of r) \<noteq> Unfinished"
  by (simp add: io_of_def split: sum.splits)

lemma ends_bind:
  "ends_unstaged m \<Longrightarrow> (\<And>x. fst m = Returned x \<Longrightarrow> ends_unstaged (f x)) \<Longrightarrow>
   ends_unstaged (io_bind m f)"
  by (cases "fst m") (auto simp: ends_unstaged_def only_events_def io_bind_def)

lemma ends_then:
  "ends_unstaged m \<Longrightarrow> (fst m = Returned () \<Longrightarrow> ends_unstaged n) \<Longrightarrow> ends_unstaged (io_then m n)"
  unfolding io_then_def by (rule ends_bind) auto

lemma ends_return: "ends_unstaged (io_return x)"
  by (simp add: ends_unstaged_def only_events_def io_return_def)

lemma ends_raise: "ends_unstaged (io_raise e)"
  by (simp add: ends_unstaged_def only_events_def io_raise_def)

lemma ends_of: "ends_unstaged (io_of r)"
  by (simp add: ends_unstaged_def only_events_def io_of_def split: sum.splits)

lemma ends_emit: "\<not> is_upload ev \<Longrightarrow> ends_unstaged (io_emit ev)"
  by (simp add: ends_unstaged_def only_events_def io_emit_def)

lemma ends_when: "(b \<Longrightarrow> ends_unstaged m) \<Longrightarrow> ends_unstaged (io_when b m)"
  by (simp add: io_when_def ends_return)

lemma ends_for: "(\<And>x. x \<in> set xs \<Longrightarrow> ends_unstaged (f x)) \<Longrightarrow> ends_unstaged (io_for xs f)"
  by (induction xs) (auto intro: ends_then ends_return)

lemma ends_if:
  "(c \<Longrightarrow> ends_unstaged m) \<Longrightarrow> (\<not> c \<Longrightarrow> ends_unstaged n) \<Longrightarrow>
   ends_unstaged (if c then m else n)"
  by simp

lemmas ends_intros =
  ends_bind ends_then ends_return ends_raise ends_of ends_emit ends_when ends_for ends_if

lemma fails_bind:
  "ends_unstaged m \<Longrightarrow> (\<And>x. fst m = Returned x \<Longrightarrow> fails_unstaged (f x)) \<Longrightarrow>
   fails_unstaged (io_bind m f)"
  by (cases "fst m") (auto simp: ends_unstaged_def fails_unstaged_def only_events_def io_bind_def)

lemma fails_then:
  "ends_unstaged m \<Longrightarrow> (fst m = Returned () \<Longrightarrow> fails_unstaged n) \<Longrightarrow>
   fails_unstaged (io_then m n)"
  unfolding io_then_def by (rule fails_bind) auto

lemma fails_first:
  "m = (Raised e, []) \<Longrightarrow> fails_unstaged (io_bind m f)"
  by (simp add: fails_unstaged_def only_events_def io_bind_def)

subsection \<open>The phases before the deployment\<close>

lemma ends_check_files: "ends_unstaged (main_check_files w)"
  unfolding main_check_files_def by (intro ends_intros; simp)

lemma ends_resolve_host: "ends_unstaged (main_resolve_host w a)"
  unfolding main_resolve_host_def Let_def by (intro ends_intros; simp)

lemma ends_robot_name: "ends_unstaged (main_robot_name w a)"
  unfolding main_robot_name_def by (intro ends_intros; simp)

lemma ends_ensure_key: "ends_unstaged (main_ensure_key w a)"
  unfolding main_ensure_key_def Let_def by (intro ends_intros; simp)

lemma ends_preflight: "ends_unstaged (ssh_preflight w a)"
  unfolding ssh_preflight_def Let_def by (intro ends_intros; simp)

lemma ends_detect: "ends_unstaged (main_detect w a)"
  unfolding main_detect_def Let_def by (intro ends_intros; simp)

lemma ends_build_mount: "ends_unstaged (main_build_mount w p t mount k serial)"
  unfolding main_build_mount_def Let_def by (intro ends_intros; simp)

lemma detect_Returned:
  assumes "fst (main_detect w a) = Returned (left_serial, right_serial, p, t, d)"
  shows "\<exists>mounts. attached_pipette_serials (instruments_outcome w) = Inr mounts
           \<and> left_serial = mounts ''left'' \<and> right_serial = mounts ''right''
           \<and> load_json w (pipette_template_path w) = Inr p
           \<and> load_json w (tip_template_path w) = Inr t
           \<and> load_json w (deck_template_path w) = Inr d"
  using assms
  by (auto simp: main_detect_def Let_def io_then_def io_bind_def io_emit_def io_of_def
        io_raise_def io_return_def split: sum.splits if_splits)

lemma build_mount_fails:
  "opt_truthy serial \<Longrightarrow> find_template_by_mount p mount = Inl e \<Longrightarrow>
   main_build_mount w p t mount k serial = (Raised e, [])"
  by (simp add: main_build_mount_def Let_def io_of_def io_bind_def)

lemma deploy_fails_unstaged:
  assumes load: "load_json w (pipette_template_path w) = Inr p"
      and att: "attached_pipette_serials (instruments_outcome w) = Inr mounts"
      and right: "opt_truthy (mounts ''right'')"
      and missing: "find_template_by_mount p ''right'' = Inl e"
  shows "fails_unstaged (main_deploy w a)"
  unfolding main_deploy_def
proof (rule fails_bind [OF ends_detect])
  fix x
  assume r: "fst (main_detect w a) = Returned x"
  obtain left_serial right_serial p' t d where x: "x = (left_serial, right_serial, p', t, d)"
    by (cases x)
  from detect_Returned [OF r [unfolded x]] load att
  have rs: "right_serial = mounts ''right''" and p': "p' = p"
    by auto
  have b: "main_build_mount w p t ''right'' 2 (mounts ''right'') = (Raised e, [])"
    using right missing by (rule build_mount_fails)
  show "fails_unstaged
          (case x of
             (left_serial, right_serial, pipette_tpl, tip_tpl, deck_tpl) \<Rightarrow>
               io_bind (main_build_mount w pipette_tpl tip_tpl ''left'' 0 left_serial)
                 (\<lambda>(left_p_file, left_t_file).
                    io_bind (main_build_mount w pipette_tpl tip_tpl ''right'' 2 right_serial)
                      (\<lambda>(right_p_file, right_t_file).
                         io_bind (main_build_deck w deck_tpl left_serial right_serial)
                           (\<lambda>deck_file.
                              main_apply w a left_p_file right_p_file left_t_file right_t_file
                                deck_file left_serial right_serial))))"
    unfolding x rs p' prod.case
  proof (rule fails_bind [OF ends_build_mount])
    fix y :: "string option \<times> string option"
    obtain lp lt where y: "y = (lp, lt)" by (cases y)
    show "fails_unstaged
            (case y of
               (left_p_file, left_t_file) \<Rightarrow>
                 io_bind (main_build_mount w p t ''right'' 2 (mounts ''right''))
                   (\<lambda>(right_p_file, right_t_file).
                      io_bind (main_build_deck w d left_serial (mounts ''right''))
                        (\<lambda>deck_file.
                           main_apply w a left_p_file right_p_file left_t_file right_t_file
                             deck_file left_serial (mounts ''right''))))"
      unfolding y prod.case by (rule fails_first [OF b])
  qed
qed

lemma main_fails_unstaged:
  assumes "load_json w (pipette_template_path w) = Inr p"
      and "attached_pipette_serials (instruments_outcome w) = Inr mounts"
      and "opt_truthy (mounts ''right'')"
      and "find_template_by_mount p ''right'' = Inl e"
  shows "fails_unstaged (main w a)"
  unfolding main_def
  by (intro fails_then [OF ends_check_files] fails_bind [OF ends_resolve_host]
        fails_bind [OF ends_robot_name] fails_bind [OF ends_ensure_key]
        fails_then [OF ends_when [OF ends_preflight]] deploy_fails_unstaged [OF assms])

section \<open>The pipette-offset template of a mount\<close>

lemma mount_loop_find:
  "\<forall>e\<in>set entries. is_dict e \<Longrightarrow>
   find_template_by_mount_loop entries m =
     (case find (\<lambda>e. py_lower (field_text e ''mount'') = m) entries of
        Some e \<Rightarrow> Inr e
      | None \<Rightarrow> Inl (TemplateNotFoundError
            (''No pipette offset template found for mount='' @ repr_str m @ ''.'')))"
proof (induction entries)
  case Nil
  then show ?case by simp
next
  case (Cons e es)
  then obtain kvs where "e = JObj kvs" by (cases e) auto
  with Cons show ?case by (simp add: field_text_def)
qed

lemma lower_mount_name: "py_lower (mount_name m) = mount_name m"
  by (cases m) (simp_all add: py_lower_def py_lower_char_def upper_letters_def lower_letters_def)

lemma find_template_by_mount_find:
  assumes "py_get tpl ''data'' (JArr []) = Inr (JArr entries)"
      and "\<forall>e\<in>set entries. is_dict e"
  shows "find_template_by_mount tpl (mount_name m) =
     (case find (\<lambda>e. same_ignoring_case (field_text e ''mount'') (mount_name m)) entries of
        Some e \<Rightarrow> Inr e
      | None \<Rightarrow> Inl (TemplateNotFoundError
            (''No pipette offset template found for mount='' @ repr_str (mount_name m) @ ''.'')))"
  by (simp add: find_template_by_mount_def assms(1) mount_loop_find [OF assms(2)]
        same_ignoring_case_def lower_mount_name)

text \<open>
  Claim C6. For a pipette-offset template set whose \<^verbatim>\<open>data\<close> is the list \<open>entries\<close> of
  dictionaries, and for each of the two mounts, \<open>find_template_by_mount\<close> selects the
  first entry whose mount is the requested mount up to the case of the letters, and fails
  with the template-not-found error when there is none. When a pipette is attached to the
  right mount and no entry of the loaded template set is for the right mount, building the
  files of the right mount raises that error with no event at all, and the whole run of
  \<open>main\<close> raises without any upload: nothing is staged.
\<close>

theorem find_template_by_mount_selection:
  assumes "py_get pipette_offsets ''data'' (JArr []) = Inr (JArr entries)"
      and "\<forall>e\<in>set entries. is_dict e"
  shows "find_template_by_mount pipette_offsets (mount_name m) =
           (case find (\<lambda>e. same_ignoring_case (field_text e ''mount'') (mount_name m)) entries of
              Some e \<Rightarrow> Inr e
            | None \<Rightarrow> Inl (TemplateNotFoundError
                  (''No pipette offset template found for mount='' @ repr_str (mount_name m) @ ''.'')))
       \<and> (load_json w (pipette_template_path w) = Inr pipette_offsets
            \<and> attached_pipette_serials (instruments_outcome w) = Inr mounts
            \<and> opt_truthy (mounts ''right'')
            \<and> (\<forall>e\<in>set entries. \<not> same_ignoring_case (field_text e ''mount'') ''right'')
          \<longrightarrow> main_build_mount w pipette_offsets tip_lengths ''right'' 2 (mounts ''right'')
                = (Raised (TemplateNotFoundError
                     (''No pipette offset template found for mount='' @ repr_str ''right'' @ ''.'')), [])
              \<and> (\<exists>e. fst (main w a) = Raised e)
              \<and> (\<forall>ev\<in>set (snd (main w a)). \<not> is_upload ev))"
proof (intro conjI impI)
  show "find_template_by_mount pipette_offsets (mount_name m) =
           (case find (\<lambda>e. same_ignoring_case (field_text e ''mount'') (mount_name m)) entries of
              Some e \<Rightarrow> Inr e
            | None \<Rightarrow> Inl (TemplateNotFoundError
                  (''No pipette offset template found for mount='' @ repr_str (mount_name m) @ ''.'')))"
    using assms by (rule find_template_by_mount_find)
next
  assume h: "load_json w (pipette_template_path w) = Inr pipette_offsets
            \<and> attached_pipette_serials (instruments_outcome w) = Inr mounts
            \<and> opt_truthy (mounts ''right'')
            \<and> (\<forall>e\<in>set entries. \<not> same_ignoring_case (field_text e ''mount'') ''right'')"
  then have "find (\<lambda>e. same_ignoring_case (field_text e ''mount'') (mount_name Right)) entries = None"
    by (simp add: find_None_iff)
  with find_template_by_mount_find [OF assms, of Right]
  have nf: "find_template_by_mount pipette_offsets ''right'' =
              Inl (TemplateNotFoundError
                     (''No pipette offset template found for mount='' @ repr_str ''right'' @ ''.''))"
    by simp
  from h have f: "fails_unstaged (main w a)"
    by (intro main_fails_unstaged [OF _ _ _ nf]) auto
  show "main_build_mount w pipette_offsets tip_lengths ''right'' 2 (mounts ''right'')
          = (Raised (TemplateNotFoundError
               (''No pipette offset template found for mount='' @ repr_str ''right'' @ ''.'')), [])"
    using h nf by (intro build_mount_fails) auto
  show "\<exists>e. fst (main w a) = Raised e"
    using f by (simp add: fails_unstaged_def)
  show "\<forall>ev\<in>set (snd (main w a)). \<not> is_upload ev"
    using f by (simp add: fails_unstaged_def only_events_def)
qed

lemmas io_defs =
  io_then_def io_bind_def io_emit_def io_of_def io_raise_def io_return_def io_when_def

lemmas text_defs =
  py_str_def py_lower_def py_lower_char_def upper_letters_def lower_letters_def py_strip_def py_isspace_def str_of_int_def

lemmas lab_defs =
  lab_world_def lab_args_def parsed_defaults_def default_remote_tag_def ok_proc_def
  lab_pipette_template_def lab_tip_template_def lab_deck_template_def lab_instruments_def

lemma lab_right_run:
  "main (lab_world ''right'') lab_args
     = (Raised (TemplateNotFoundError
          (''No pipette offset template found for mount='' @ repr_str ''right'' @ ''.'')),
        [HttpGet ''http://10.0.0.5:31950/health'',
         Exec [''ssh'', ''-p'', ''22'', ''-o'', ''StrictHostKeyChecking=accept-new'', ''-i'',
               ''/home/ana/.ssh/ot2'', ''root@10.0.0.5'', ''true''],
         HttpGet ''http://10.0.0.5:31950/instruments'',
         Print ''Detected pipettes:'', Print ''  left:  <none>'',
         Print ''  right: P300L123''])"
  by (simp add: main_def main_check_files_def main_resolve_host_def main_robot_name_def
        main_default_key_def main_ensure_key_def ssh_preflight_def ssh_base_def
        main_deploy_def main_detect_def main_build_mount_def
        attached_pipette_serials_def http_json_def robot_name_def
        find_template_by_mount_def health_url_def instruments_url_def serial_or_def
        Let_def io_defs text_defs lab_defs)

theorem find_template_by_mount_selection_witness:
  "py_get lab_pipette_template ''data'' (JArr [])
     = Inr (JArr [JObj [(''mount'', JStr ''left''), (''offset'', JArr [JInt 0, JInt 0, JInt 0]),
                        (''tiprack'', JStr ''hash1'')]])
   \<and> is_dict (JObj [(''mount'', JStr ''left''), (''offset'', JArr [JInt 0, JInt 0, JInt 0]),
                    (''tiprack'', JStr ''hash1'')])
   \<and> find_template_by_mount lab_pipette_template ''left''
     = Inr (JObj [(''mount'', JStr ''left''), (''offset'', JArr [JInt 0, JInt 0, JInt 0]),
                  (''tiprack'', JStr ''hash1'')])
   \<and> find_template_by_mount lab_pipette_template ''right''
     = Inl (TemplateNotFoundError
              (''No pipette offset template found for mount='' @ repr_str ''right'' @ ''.''))
   \<and> attached_pipette_serials (instruments_outcome (lab_world ''right''))
     = Inr [''right'' \<mapsto> ''P300L123'']
   \<and> main (lab_world ''right'') lab_args
     = (Raised (TemplateNotFoundError
          (''No pipette offset template found for mount='' @ repr_str ''right'' @ ''.'')),
        [HttpGet ''http://10.0.0.5:31950/health'',
         Exec [''ssh'', ''-p'', ''22'', ''-o'', ''StrictHostKeyChecking=accept-new'', ''-i'',
               ''/home/ana/.ssh/ot2'', ''root@10.0.0.5'', ''true''],
         HttpGet ''http://10.0.0.5:31950/instruments'',
         Print ''Detected pipettes:'', Print ''  left:  <none>'',
         Print ''  right: P300L123''])"
proof -
  let ?e = "JObj [(''mount'', JStr ''left''), (''offset'', JArr [JInt 0, JInt 0, JInt 0]),
                  (''tiprack'', JStr ''hash1'')]"
  have d: "py_get lab_pipette_template ''data'' (JArr []) = Inr (JArr [?e])"
    by (simp add: lab_pipette_template_def)
  have o: "\<forall>e\<in>set [?e]. is_dict e" by simp
  have t: "field_text ?e ''mount'' = ''left''"
    by (simp add: field_text_def py_str_def)
  have c: "same_ignoring_case ''left'' ''left''" "\<not> same_ignoring_case ''left'' ''right''"
    by (simp_all add: same_ignoring_case_def py_lower_def py_lower_char_def upper_letters_def lower_letters_def)
  have l: "load_json (lab_world ''right'') (pipette_template_path (lab_world ''right''))
             = Inr lab_pipette_template"
    by (simp add: lab_world_def)
  have m: "attached_pipette_serials (instruments_outcome (lab_world ''right''))
             = Inr [''right'' \<mapsto> ''P300L123'']"
    by (simp add: lab_world_def lab_instruments_def attached_pipette_serials_def http_json_def
          text_defs)
  note left = find_template_by_mount_selection [OF d o, of Left, THEN conjunct1]
  note right = find_template_by_mount_selection
                 [OF d o, of Right "lab_world ''right''" "[''right'' \<mapsto> ''P300L123'']"
                    lab_tip_template lab_args]
  from left have a: "find_template_by_mount lab_pipette_template ''left'' = Inr ?e"
    by (simp add: t c)
  from right have b: "find_template_by_mount lab_pipette_template ''right''
     = Inl (TemplateNotFoundError
              (''No pipette offset template found for mount='' @ repr_str ''right'' @ ''.''))"
    by (simp add: t c)
  from right l m have "\<exists>e. fst (main (lab_world ''right'') lab_args) = Raised e"
    by (simp add: t c)
  from d a b m lab_right_run show ?thesis by simp
qed

section \<open>The dry run\<close>

lemma io_for_emit: "io_for xs (\<lambda>x. io_emit (g x)) = (Returned (), map g xs)"
  by (induction xs) (simp_all add: io_defs)

lemma remote_apply_dry_run:
  "dry_run a \<Longrightarrow>
   remote_apply w a local_left local_right local_tip_left local_tip_right local_deck
     left_serial right_serial
   = (Returned (),
      Print ''[dry-run] files that would be uploaded:''
      # map (\<lambda>f. Print (''  '' @ fst f @ '' -> '' @ snd f))
          (to_copy a local_left local_right local_tip_left local_tip_right local_deck
             left_serial right_serial)
      @ [Print ''[dry-run] remote apply script:'',
         Print (remote_script a local_left local_right local_tip_left local_tip_right
                  left_serial right_serial)])"
  by (simp add: remote_apply_def Let_def io_for_emit) (simp add: io_defs)

lemma only_prints: "(\<And>line. P (Print line)) \<Longrightarrow> only_events P (Returned (), map Print xs)"
  by (auto simp: only_events_def)

lemma only_check_files: "only_events P (main_check_files w)"
  unfolding main_check_files_def by (intro only_intros; simp)

lemma only_resolve_host:
  "host a' = host a \<Longrightarrow> api_port a' = api_port a \<Longrightarrow> api_version a' = api_version a \<Longrightarrow>
   only_events (dry_run_event w a) (main_resolve_host w a')"
  unfolding main_resolve_host_def Let_def
  by (intro only_intros; simp add: resolver_command_def)

lemma resolve_host_dry_run:
  "fst (main_resolve_host w a) = Returned a1 \<Longrightarrow> dry_run a1 = dry_run a"
  by (auto simp: main_resolve_host_def Let_def io_defs split: if_splits)

lemma only_robot_name: "only_events (dry_run_event w a0) (main_robot_name w a)"
  unfolding main_robot_name_def by (intro only_intros; simp)

lemma robot_name_dry_run:
  "fst (main_robot_name w a) = Returned a2 \<Longrightarrow> dry_run a2 = dry_run a"
  by (auto simp: main_robot_name_def io_defs)

lemma default_key_dry_run: "dry_run (main_default_key w a) = dry_run a"
  by (simp add: main_default_key_def Let_def)

lemma ensure_key_dry_run: "dry_run a \<Longrightarrow> main_ensure_key w a = io_return a"
  by (simp add: main_ensure_key_def Let_def)

lemma only_detect: "only_events (dry_run_event w a0) (main_detect w a)"
  unfolding main_detect_def Let_def by (intro only_intros; simp)

lemma only_build_mount: "only_events (dry_run_event w a0) (main_build_mount w p t mount k serial)"
  unfolding main_build_mount_def Let_def by (intro only_intros; simp)

lemma only_build_deck: "only_events (dry_run_event w a0) (main_build_deck w d left_serial right_serial)"
  unfolding main_build_deck_def Let_def by (intro only_intros; simp)

lemma only_remote_apply_dry_run:
  "dry_run a \<Longrightarrow>
   only_events (dry_run_event w a0)
     (remote_apply w a local_left local_right local_tip_left local_tip_right local_deck
        left_serial right_serial)"
  by (auto simp: remote_apply_dry_run only_events_def)

lemma only_apply:
  "dry_run a \<Longrightarrow>
   only_events (dry_run_event w a0)
     (main_apply w a left_p_file right_p_file left_t_file right_t_file deck_file
        left_serial right_serial)"
  unfolding main_apply_def
  by (intro only_intros only_remote_apply_dry_run; simp)

lemma only_prod:
  "(\<And>x y. only_events P (f x y)) \<Longrightarrow> only_events P (case_prod f p)"
  by (cases p) simp

lemma only_deploy:
  assumes "dry_run a"
  shows "only_events (dry_run_event w a0) (main_deploy w a)"
  unfolding main_deploy_def
  by (intro only_bind only_prod only_detect only_build_mount only_build_deck
        only_apply [OF assms])

lemma io_bind_return: "io_bind (io_return x) f = f x"
  by (simp add: io_bind_def io_return_def)

lemma io_then_return: "io_then (io_return ()) n = n"
  by (simp add: io_then_def io_bind_return)

lemma only_main_dry_run:
  assumes "dry_run a"
  shows "only_events (dry_run_event w a) (main w a)"
  unfolding main_def
proof (rule only_then [OF only_check_files], rule only_bind)
  show "only_events (dry_run_event w a)
          (main_resolve_host w (a\<lparr>restart_robot_server := \<not> no_restart_robot_server a\<rparr>))"
    by (rule only_resolve_host) simp_all
next
  fix a1
  assume "fst (main_resolve_host w (a\<lparr>restart_robot_server := \<not> no_restart_robot_server a\<rparr>))
            = Returned a1"
  from resolve_host_dry_run [OF this] assms have d1: "dry_run a1" by simp
  show "only_events (dry_run_event w a)
          (io_bind (main_robot_name w a1)
             (\<lambda>a2. io_bind (main_ensure_key w (main_default_key w a2))
                      (\<lambda>a3. io_then (io_when (\<not> dry_run a3) (ssh_preflight w a3))
                               (main_deploy w a3))))"
  proof (rule only_bind [OF only_robot_name])
    fix a2
    assume "fst (main_robot_name w a1) = Returned a2"
    from robot_name_dry_run [OF this] d1 have d2: "dry_run (main_default_key w a2)"
      by (simp add: default_key_dry_run)
    show "only_events (dry_run_event w a)
            (io_bind (main_ensure_key w (main_default_key w a2))
               (\<lambda>a3. io_then (io_when (\<not> dry_run a3) (ssh_preflight w a3))
                        (main_deploy w a3)))"
      unfolding ensure_key_dry_run [OF d2] io_bind_return
      using d2 by (simp add: io_when_def io_then_return only_deploy)
  qed
qed

text \<open>
  Claim C8, as the code has it. In a dry run no remote command is run, no file is uploaded
  and the key helper is not started: every event of \<open>main\<close> is a request to the robot's
  HTTP interface (the health request for the robot's name, the instruments request), the
  host resolver when \<^verbatim>\<open>--host\<close> is omitted, a local file written, or a line printed.
  \<open>remote_apply\<close> itself returns after printing the mapping of the local files to their
  remote paths and the commit script, and does nothing else.
\<close>

theorem dry_run_runs_nothing_remote:
  assumes "dry_run a"
  shows "(\<forall>ev\<in>set (snd (main w a)). dry_run_event w a ev)
       \<and> remote_apply w a local_left local_right local_tip_left local_tip_right local_deck
           left_serial right_serial
         = (Returned (),
            Print ''[dry-run] files that would be uploaded:''
            # map (\<lambda>f. Print (''  '' @ fst f @ '' -> '' @ snd f))
                (to_copy a local_left local_right local_tip_left local_tip_right local_deck
                   left_serial right_serial)
            @ [Print ''[dry-run] remote apply script:'',
               Print (remote_script a local_left local_right local_tip_left local_tip_right
                        left_serial right_serial)])"
  using only_main_dry_run [OF assms] remote_apply_dry_run [OF assms]
  by (simp add: only_events_def)

lemma snd_io_bind_prefix: "\<exists>rest. snd (io_bind m f) = snd m @ rest"
  by (cases "fst m") (simp_all add: io_bind_def)

lemma io_bind_then: "io_bind (io_then m n) f = io_then m (io_bind n f)"
  by (cases "fst m"; cases "fst n") (simp_all add: io_then_def io_bind_def)

lemma resolve_host_given: "host a \<noteq> [] \<Longrightarrow> main_resolve_host w a = io_return a"
  by (simp add: main_resolve_host_def)

lemma host_default_key: "host (main_default_key w a) = host a"
  and api_port_default_key: "api_port (main_default_key w a) = api_port a"
  by (simp_all add: main_default_key_def Let_def)

lemma snd_detect_starts:
  "\<exists>rest. snd (main_detect w a) = HttpGet (instruments_url (host a) (api_port a)) # rest"
  using snd_io_bind_prefix
          [of "io_emit (HttpGet (instruments_url (host a) (api_port a)))"]
  by (simp add: main_detect_def io_then_def io_emit_def)

lemma snd_deploy_starts:
  "\<exists>rest. snd (main_deploy w a) = HttpGet (instruments_url (host a) (api_port a)) # rest"
proof -
  obtain r1 where "snd (main_detect w a) = HttpGet (instruments_url (host a) (api_port a)) # r1"
    using snd_detect_starts by blast
  moreover obtain r2 where "snd (main_deploy w a) = snd (main_detect w a) @ r2"
    unfolding main_deploy_def using snd_io_bind_prefix by blast
  ultimately show ?thesis by simp
qed

lemma main_dry_run_starts:
  assumes "dry_run a" and "host a \<noteq> []" and "main_check_files w = io_return ()"
  shows "\<exists>rest. snd (main w a) =
           HttpGet (health_url (host a) (api_port a))
           # HttpGet (instruments_url (host a) (api_port a)) # rest"
proof -
  let ?a1 = "a\<lparr>restart_robot_server := \<not> no_restart_robot_server a\<rparr>"
  let ?a2 = "?a1\<lparr>robot_name_attr :=
                (case robot_name (health_outcome w) of Inl e \<Rightarrow> ''opentrons'' | Inr n \<Rightarrow> n),
              ssh_key_dir_attr := ssh_key_dir ?a1\<rparr>"
  let ?a3 = "main_default_key w ?a2"
  have d3: "dry_run ?a3" using assms(1) by (simp add: default_key_dry_run)
  have m: "main w a = io_then (io_emit (HttpGet (health_url (host a) (api_port a))))
                        (main_deploy w ?a3)"
    using assms(1,2)
    by (simp add: main_def assms(3) io_then_return resolve_host_given io_bind_return
          main_robot_name_def io_bind_then ensure_key_dry_run default_key_dry_run io_when_def)
  obtain rest where "snd (main_deploy w ?a3)
                       = HttpGet (instruments_url (host ?a3) (api_port ?a3)) # rest"
    using snd_deploy_starts by blast
  then show ?thesis
    by (simp add: m io_then_def io_bind_def io_emit_def host_default_key api_port_default_key)
qed

theorem dry_run_runs_nothing_remote_witness:
  "dry_run (lab_args\<lparr>dry_run := True\<rparr>)
   \<and> HttpGet ''http://10.0.0.5:31950/instruments''
       \<in> set (snd (main (lab_world ''left'') (lab_args\<lparr>dry_run := True\<rparr>)))
   \<and> dry_run_event (lab_world ''left'') (lab_args\<lparr>dry_run := True\<rparr>)
         (HttpGet ''http://10.0.0.5:31950/instruments'')
   \<and> remote_apply (lab_world ''left'') (lab_args\<lparr>dry_run := True\<rparr>)
        (Some ''/tmp/aso/P300L123.left.pipette.json'') None None None
        ''/tmp/aso/deck_calibration.json'' (Some ''P300L123'') None
     = (Returned (),
        [Print ''[dry-run] files that would be uploaded:'',
         Print ''  /tmp/aso/deck_calibration.json -> /data/standard-offsets-upload/deck_calibration.json'',
         Print ''  /tmp/aso/P300L123.left.pipette.json -> /data/standard-offsets-upload/P300L123.left.pipette.json'',
         Print ''[dry-run] remote apply script:'',
         Print (remote_script (lab_args\<lparr>dry_run := True\<rparr>)
                  (Some ''/tmp/aso/P300L123.left.pipette.json'') None None None
                  (Some ''P300L123'') None)])"
proof -
  let ?a = "lab_args\<lparr>dry_run := True\<rparr>"
  let ?w = "lab_world ''left''"
  have d: "dry_run ?a" by simp
  have h: "host ?a \<noteq> []" by (simp add: lab_args_def parsed_defaults_def)
  have c: "main_check_files ?w = io_return ()"
    by (simp add: main_check_files_def lab_world_def io_then_def io_bind_def io_return_def)
  have p: "str_of_int 31950 = ''31950''" by (simp add: str_of_int_def)
  from main_dry_run_starts [OF d h c]
  have i: "HttpGet ''http://10.0.0.5:31950/instruments'' \<in> set (snd (main ?w ?a))"
    by (auto simp: instruments_url_def lab_args_def parsed_defaults_def p)
  note t = dry_run_runs_nothing_remote
             [OF d, of ?w "Some ''/tmp/aso/P300L123.left.pipette.json''" None None None
                "''/tmp/aso/deck_calibration.json''" "Some ''P300L123''" None]
  from t i have e: "dry_run_event ?w ?a (HttpGet ''http://10.0.0.5:31950/instruments'')"
    by blast
  from t have r: "remote_apply ?w ?a
        (Some ''/tmp/aso/P300L123.left.pipette.json'') None None None
        ''/tmp/aso/deck_calibration.json'' (Some ''P300L123'') None
     = (Returned (),
        [Print ''[dry-run] files that would be uploaded:'',
         Print ''  /tmp/aso/deck_calibration.json -> /data/standard-offsets-upload/deck_calibration.json'',
         Print ''  /tmp/aso/P300L123.left.pipette.json -> /data/standard-offsets-upload/P300L123.left.pipette.json'',
         Print ''[dry-run] remote apply script:'',
         Print (remote_script ?a
                  (Some ''/tmp/aso/P300L123.left.pipette.json'') None None None
                  (Some ''P300L123'') None)])"
    by (simp add: to_copy_def staged_def remote_tmp_def lab_args_def parsed_defaults_def
          default_remote_tag_def)
  from d i e r show ?thesis by blast
qed

text \<open>
  The claim C8 as it is written fails: a dry run against a given host still sends two
  requests over the network, one for the robot's name and one for the attached
  instruments.
\<close>

theorem dry_run_sends_requests_counterexample:
  "dry_run (lab_args\<lparr>dry_run := True\<rparr>)
   \<and> take 2 (snd (main (lab_world ''left'') (lab_args\<lparr>dry_run := True\<rparr>)))
       = [HttpGet ''http://10.0.0.5:31950/health'',
          HttpGet ''http://10.0.0.5:31950/instruments'']"
proof -
  let ?a = "lab_args\<lparr>dry_run := True\<rparr>"
  let ?w = "lab_world ''left''"
  have d: "dry_run ?a" by simp
  have h: "host ?a \<noteq> []" by (simp add: lab_args_def parsed_defaults_def)
  have c: "main_check_files ?w = io_return ()"
    by (simp add: main_check_files_def lab_world_def io_then_def io_bind_def io_return_def)
  have p: "str_of_int 31950 = ''31950''" by (simp add: str_of_int_def)
  from main_dry_run_starts [OF d h c] d show ?thesis
    by (auto simp: instruments_url_def health_url_def lab_args_def parsed_defaults_def p)
qed

section \<open>The staging directory\<close>
















end
